theory Spec2Isabelle
  imports Main
begin

section \<open>Go's path/filepath on Unix\<close>

text \<open>
  The snapshotter builds every path with \<open>filepath.Join\<close>, \<open>filepath.Base\<close> and
  \<open>filepath.Dir\<close>. They are lexical functions on byte strings; the separator is the slash.
\<close>

definition sep :: char where
  "sep = CHR ''/''"

text \<open>\<open>strings.Split(s, "/")\<close>: the pieces between the separators, empty pieces included.\<close>

fun splitSep :: "string \<Rightarrow> string list" where
  "splitSep [] = [[]]"
| "splitSep (c # cs) =
     (if c = CHR ''/'' then [] # splitSep cs
      else (case splitSep cs of [] \<Rightarrow> [[c]] | x # xs \<Rightarrow> (c # x) # xs))"

text \<open>\<open>strings.Join(elems, "/")\<close>.\<close>

fun joinSep :: "string list \<Rightarrow> string" where
  "joinSep [] = []"
| "joinSep [x] = x"
| "joinSep (x # y # ys) = x @ CHR ''/'' # joinSep (y # ys)"

text \<open>
  The element loop of \<open>Clean\<close>. The output buffer is kept as a stack of elements, last
  element first. An empty element and \<open>.\<close> are skipped; \<open>..\<close> removes the last real
  element when there is one, is dropped at the root, and is kept otherwise.
\<close>

fun cleanElems :: "bool \<Rightarrow> string list \<Rightarrow> string list \<Rightarrow> string list" where
  "cleanElems rooted out [] = rev out"
| "cleanElems rooted out (c # cs) =
     (if c = [] \<or> c = ''.'' then cleanElems rooted out cs
      else if c = ''..'' then
        (if out \<noteq> [] \<and> hd out \<noteq> ''..'' then cleanElems rooted (tl out) cs
         else if rooted then cleanElems rooted out cs
         else cleanElems rooted (''..'' # out) cs)
      else cleanElems rooted (c # out) cs)"

definition IsAbs :: "string \<Rightarrow> bool" where
  "IsAbs p = (case p of [] \<Rightarrow> False | c # _ \<Rightarrow> c = CHR ''/'')"

definition Clean :: "string \<Rightarrow> string" where
  "Clean p =
     (if p = [] then ''.''
      else let out = cleanElems (IsAbs p) [] (splitSep p) in
        if IsAbs p then CHR ''/'' # joinSep out
        else if out = [] then ''.'' else joinSep out)"

text \<open>\<open>filepath.Join\<close>: leading empty elements are ignored, the rest is joined and cleaned.\<close>

definition Join :: "string list \<Rightarrow> string" where
  "Join elems =
     (case dropWhile (\<lambda>e. e = []) elems of [] \<Rightarrow> [] | e # es \<Rightarrow> Clean (joinSep (e # es)))"

definition stripTrailingSep :: "string \<Rightarrow> string" where
  "stripTrailingSep p = rev (dropWhile (\<lambda>c. c = CHR ''/'') (rev p))"

definition Base :: "string \<Rightarrow> string" where
  "Base p =
     (if p = [] then ''.''
      else let b = rev (takeWhile (\<lambda>c. c \<noteq> CHR ''/'') (rev (stripTrailingSep p))) in
        if b = [] then ''/'' else b)"

definition Dir :: "string \<Rightarrow> string" where
  "Dir p = Clean (rev (dropWhile (\<lambda>c. c \<noteq> CHR ''/'') (rev p)))"

text \<open>\<open>strings.HasPrefix\<close>.\<close>

definition HasPrefix :: "string \<Rightarrow> string \<Rightarrow> bool" where
  "HasPrefix s p = (take (length p) s = p)"

section \<open>Errors\<close>

datatype errno = EAGAIN | ENOENT | EEXIST | EIO | EPERM | ENOSPC | EBUSY

text \<open>
  A Go error value: a kernel error, an error made from a message, an error wrapped with
  a message (\<open>fmt.Errorf("...: %w", err)\<close>), and the sentinels of \<open>errdefs\<close>.
\<close>

datatype error =
    Sys errno
  | Msg string
  | Wrap string error
  | ErrAlreadyExists
  | ErrNotFound
  | ErrInvalidArgument
  | ErrFailedPrecondition

section \<open>Whiteout translation (package archive)\<close>

text \<open>
  Modelled from the spec: the constants \<open>whiteoutPrefix\<close> and \<open>whiteoutOpaqueDir\<close> are
  declared in a file of package archive that is not part of the sources at hand; the
  specification gives the opaque-directory marker as \<open>.wh..wh..opq\<close> and the whiteout
  prefix as \<open>.wh.\<close>.
\<close>

definition whiteoutPrefix :: string where
  "whiteoutPrefix = ''.wh.''"

definition whiteoutOpaqueDir :: string where
  "whiteoutOpaqueDir = ''.wh..wh..opq''"

text \<open>The part of a tar header the translation reads.\<close>

record tar_header =
  Uid :: int
  Gid :: int

text \<open>
  The system calls of the translation, with their arguments:
  \<open>unix.Setxattr(path, attr, data, flags)\<close>, \<open>unix.Mknod(path, mode, dev)\<close> and
  \<open>os.Chown(path, uid, gid)\<close>.
\<close>

datatype syscall =
    Setxattr string string string nat
  | Mknod string nat nat
  | Chown string int int

definition S_IFCHR :: nat where
  "S_IFCHR = 8192"

text \<open>
  \<open>OverlayConvertWhiteout\<close>. The kernel's answer to each call is the parameter \<open>sys\<close>
  (\<open>None\<close> is success). The result is the flag telling the caller to write the entry,
  the error, and the calls made, in order.
\<close>

definition OverlayConvertWhiteout ::
  "(syscall \<Rightarrow> errno option) \<Rightarrow> tar_header \<Rightarrow> string \<Rightarrow> bool \<times> errno option \<times> syscall list" where
  "OverlayConvertWhiteout sys hdr path =
     (let base = Base path; dir = Dir path in
      if base = whiteoutOpaqueDir then
        (False, sys (Setxattr dir ''trusted.overlay.opaque'' ''y'' 0),
         [Setxattr dir ''trusted.overlay.opaque'' ''y'' 0])
      else if HasPrefix base whiteoutPrefix then
        (let originalBase = drop (length whiteoutPrefix) base;
             originalPath = Join [dir, originalBase] in
         case sys (Mknod originalPath S_IFCHR 0) of
           Some e \<Rightarrow> (False, Some e, [Mknod originalPath S_IFCHR 0])
         | None \<Rightarrow>
             (False, sys (Chown originalPath (Uid hdr) (Gid hdr)),
              [Mknod originalPath S_IFCHR 0, Chown originalPath (Uid hdr) (Gid hdr)]))
      else (True, None, []))"

text \<open>\<open>AufsConvertWhiteout\<close> keeps every entry.\<close>

definition AufsConvertWhiteout :: "tar_header \<Rightarrow> string \<Rightarrow> bool \<times> errno option" where
  "AufsConvertWhiteout hdr path = (True, None)"


section \<open>The overlay snapshotter\<close>

text \<open>The fields of \<open>snapshotter\<close>; of the two drivers, only whether one is set.\<close>

record snapshotter =
  root :: string
  asyncRemove :: bool
  upperdirLabel :: bool
  defaultUpperDir :: string
  indexOff :: bool
  userxattr :: bool
  hasQuotaDriver :: bool

subsection \<open>Cleanup\<close>

text \<open>
  What \<open>Cleanup\<close> reads from outside: the write transaction it opens, the id map of the
  metadata store (\<open>storage.IDMap\<close>), and the two directories it opens and lists.
\<close>

record cleanup_env =
  beginTx :: "error option"
  IDMap :: "error + (string \<rightharpoonup> string)"
  openDir :: "string \<Rightarrow> error option"
  readdirnames :: "string \<Rightarrow> error + string list"

text \<open>
  The loop over one directory listing: an entry whose name is a key of the id map is
  skipped, every other entry is appended, joined to the directory.
\<close>

fun orphanDirs :: "(string \<rightharpoonup> string) \<Rightarrow> string \<Rightarrow> string list \<Rightarrow> string list" where
  "orphanDirs ids base [] = []"
| "orphanDirs ids base (d # ds) =
     (if ids d \<noteq> None then orphanDirs ids base ds
      else Join [base, d] # orphanDirs ids base ds)"

definition getCleanupDirectories :: "snapshotter \<Rightarrow> cleanup_env \<Rightarrow> error + string list" where
  "getCleanupDirectories sn env =
     (case IDMap env of
        Inl e \<Rightarrow> Inl e
      | Inr ids \<Rightarrow>
          let snapshotDir = Join [root sn, ''snapshots''] in
          (case openDir env snapshotDir of
             Some e \<Rightarrow> Inl e
           | None \<Rightarrow>
               let upperDir = Join [defaultUpperDir sn, ''snapshots''] in
               (case openDir env upperDir of
                  Some e \<Rightarrow> Inl e
                | None \<Rightarrow>
                    (case readdirnames env upperDir of
                       Inl e \<Rightarrow> Inl e
                     | Inr udirs \<Rightarrow>
                         (case readdirnames env snapshotDir of
                            Inl e \<Rightarrow> Inl e
                          | Inr dirs \<Rightarrow>
                              Inr (orphanDirs ids snapshotDir dirs @
                                   orphanDirs ids upperDir udirs))))))"

definition cleanupDirectories :: "snapshotter \<Rightarrow> cleanup_env \<Rightarrow> error + string list" where
  "cleanupDirectories sn env =
     (case beginTx env of Some e \<Rightarrow> Inl e | None \<Rightarrow> getCleanupDirectories sn env)"

text \<open>
  \<open>Cleanup\<close>: the error, and the paths given to \<open>os.RemoveAll\<close>, in order. A removal that
  fails is logged and the loop goes on.
\<close>

definition Cleanup :: "snapshotter \<Rightarrow> cleanup_env \<Rightarrow> error option \<times> string list" where
  "Cleanup sn env =
     (case cleanupDirectories sn env of
        Inl e \<Rightarrow> (Some e, [])
      | Inr cleanup \<Rightarrow> (None, cleanup))"


section \<open>The layer-stack descriptor (package config)\<close>

record LowerConfig =
  Lower_File :: string
  Lower_Digest :: string
  Lower_Size :: nat
  Lower_Dir :: string
  Lower_RepoBlobURL :: string
  Lower_TargetDigest :: string
  Lower_TargetFile :: string
  Lower_GzipIndex :: string

record UpperConfig =
  Upper_Index :: string
  Upper_Data :: string

record Config =
  ImageRef :: string
  RepoBlobURL :: string
  Lowers :: "LowerConfig list"
  Upper :: UpperConfig
  ResultFile :: string
  AccelerationLayer :: bool
  RecordTracePath :: string
  Proxy :: string

text \<open>The zero values of the three structs.\<close>

definition LowerConfig0 :: LowerConfig where
  "LowerConfig0 =
     \<lparr>Lower_File = [], Lower_Digest = [], Lower_Size = 0, Lower_Dir = [],
      Lower_RepoBlobURL = [], Lower_TargetDigest = [], Lower_TargetFile = [],
      Lower_GzipIndex = []\<rparr>"

definition UpperConfig0 :: UpperConfig where
  "UpperConfig0 = \<lparr>Upper_Index = [], Upper_Data = []\<rparr>"

definition Config0 :: Config where
  "Config0 =
     \<lparr>ImageRef = [], RepoBlobURL = [], Lowers = [], Upper = UpperConfig0, ResultFile = [],
      AccelerationLayer = False, RecordTracePath = [], Proxy = []\<rparr>"

definition gzipIndexFile :: string where
  "gzipIndexFile = ''gzip.meta''"

definition ext4FSMetaFile :: string where
  "ext4FSMetaFile = ''ext4.fs.meta''"

definition configFile :: string where
  "configFile = ''config.v1.json''"

definition dataFile :: string where
  "dataFile = ''.data_file''"

definition idxFile :: string where
  "idxFile = ''.data_index''"

definition overlaybdBaseLayerDir :: string where
  "overlaybdBaseLayerDir = ''/opt/overlaybd/baselayers''"

definition labelSnapshotRef :: string where
  "labelSnapshotRef = ''containerd.io/snapshot.ref''"

definition labelKeyOverlayBDBlobDigest :: string where
  "labelKeyOverlayBDBlobDigest = ''containerd.io/snapshot/overlaybd/blob-digest''"

definition labelKeyOverlayBDBlobSize :: string where
  "labelKeyOverlayBDBlobSize = ''containerd.io/snapshot/overlaybd/blob-size''"

definition labelTurboOCIDigest :: string where
  "labelTurboOCIDigest = ''containerd.io/snapshot/overlaybd/turbo-oci/target-digest''"

definition labelTurboOCIMediaType :: string where
  "labelTurboOCIMediaType = ''containerd.io/snapshot/overlaybd/turbo-oci/target-media-type''"

definition labelImageRef :: string where
  "labelImageRef = ''containerd.io/snapshot/cri.image-ref''"

text \<open>
  A Go map of strings; \<open>m[k]\<close> of a missing key is the empty string.
\<close>

type_synonym labels = "string \<rightharpoonup> string"

definition index :: "labels \<Rightarrow> string \<Rightarrow> string" where
  "index m k = (case m k of None \<Rightarrow> [] | Some v \<Rightarrow> v)"

text \<open>
  What a file holds: arbitrary bytes, or the JSON document of a descriptor. The JSON
  encoding itself is not modelled: a file written by \<open>WriteConfig\<close> reads back, through
  \<open>ReadConfig\<close>, as the descriptor written. A file tree maps a path to a directory, a
  regular file or a symbolic link.
\<close>

datatype content = Bytes string | Descriptor Config

datatype node = Directory | Regular content | Link string

type_synonym disk = "string \<rightharpoonup> node"

text \<open>
  What the package calls outside the sources at hand: \<open>reference.Parse\<close>, reduced to the
  two values the caller reads (the result of \<open>Hostname()\<close> and the field \<open>Locator\<close>), and
  \<open>continuity.AtomicWriteFile\<close>, which may fail for a path.
\<close>

record config_env =
  referenceParse :: "string \<Rightarrow> error + (string \<times> string)"
  atomicWriteFile :: "string \<Rightarrow> error option"

definition OverlaybdInitDebuglogPath :: "string \<Rightarrow> string" where
  "OverlaybdInitDebuglogPath dir = Join [dir, ''init-debug.log'']"

definition OverlaybdConfPath :: "string \<Rightarrow> string" where
  "OverlaybdConfPath dir = Join [dir, configFile]"

definition WriteConfig :: "config_env \<Rightarrow> disk \<Rightarrow> Config \<Rightarrow> string \<Rightarrow> error option \<times> disk" where
  "WriteConfig env d config targetPath =
     (case atomicWriteFile env targetPath of
        Some e \<Rightarrow> (Some (Wrap (''failed to commit the overlaybd config on '' @ targetPath) e), d)
      | None \<Rightarrow> (None, d(targetPath \<mapsto> Regular (Descriptor config))))"

definition ReadConfig :: "disk \<Rightarrow> string \<Rightarrow> error + Config" where
  "ReadConfig d targetPath =
     (case d targetPath of
        None \<Rightarrow> Inl (Wrap (''failed to read config file '' @ targetPath) (Sys ENOENT))
      | Some (Regular (Descriptor c)) \<Rightarrow> Inr c
      | Some (Regular (Bytes b)) \<Rightarrow> Inl (Wrap ''failed to unmarshal config data '' (Msg b))
      | Some n \<Rightarrow> Inl (Wrap (''failed to read config file '' @ targetPath) (Sys EIO)))"

definition TrimPrefix :: "string \<Rightarrow> string \<Rightarrow> string" where
  "TrimPrefix s p = (if HasPrefix s p then drop (length p) s else s)"

definition constructImageBlobURL :: "config_env \<Rightarrow> string \<Rightarrow> error + string" where
  "constructImageBlobURL env ref =
     (case referenceParse env ref of
        Inl e \<Rightarrow> Inl (Wrap (''invalid repo url '' @ ref) e)
      | Inr (host, locator) \<Rightarrow>
          let repo = TrimPrefix locator (host @ ''/'') in
          Inr (''https://'' @ Join [host, ''v2'', repo] @ ''/blobs''))"

text \<open>
  The two media types \<open>isGzipLayer\<close> compares with are constants of the image
  specification and of package images.
\<close>

definition isGzipLayer :: "string \<Rightarrow> bool" where
  "isGzipLayer mediaType =
     (mediaType = ''application/vnd.oci.image.layer.v1.tar+gzip'' \<or>
      mediaType = ''application/vnd.docker.image.rootfs.diff.tar.gzip'')"

text \<open>
  \<open>strconv.Atoi\<close> on a 64-bit platform, with its error dropped as the caller drops it:
  an optional sign and decimal digits; \<open>0\<close> on a syntax error; the nearest bound on a
  value out of range.
\<close>

definition isDigit :: "char \<Rightarrow> bool" where
  "isDigit c = (c \<in> set ''0123456789'')"

definition digitVal :: "char \<Rightarrow> int" where
  "digitVal c = int (of_char c) - 48"

definition decimal :: "string \<Rightarrow> int" where
  "decimal ds = foldl (\<lambda>n c. 10 * n + digitVal c) 0 ds"

definition Atoi :: "string \<Rightarrow> int" where
  "Atoi s =
     (let neg = (s \<noteq> [] \<and> hd s = CHR ''-'');
          ds = (if s \<noteq> [] \<and> (hd s = CHR ''-'' \<or> hd s = CHR ''+'') then tl s else s) in
      if ds = [] \<or> \<not> list_all isDigit ds then 0
      else if neg then max (- (2 ^ 63)) (- decimal ds)
      else min (2 ^ 63 - 1) (decimal ds))"

text \<open>The conversion \<open>uint64(size)\<close> of an \<open>int\<close>.\<close>

definition uint64 :: "int \<Rightarrow> nat" where
  "uint64 i = nat (i mod 2 ^ 64)"

text \<open>
  Each constructor returns the error and the disk after it. The parameters a constructor
  does not read are kept, in the order of the source.
\<close>

definition ConstructTurboOCISpec ::
  "config_env \<Rightarrow> disk \<Rightarrow> string \<Rightarrow> labels \<Rightarrow> string \<Rightarrow> string \<Rightarrow> string \<Rightarrow> string
     \<Rightarrow> error option \<times> disk" where
  "ConstructTurboOCISpec env d parent labels snDir parentDir blobDigest blobSize =
     (let configJSON = Config0\<lparr>Lowers := [], ResultFile := OverlaybdInitDebuglogPath snDir\<rparr>;
          lower = LowerConfig0\<lparr>Lower_Dir := snDir, Lower_File := Join [snDir, ext4FSMetaFile],
                    Lower_TargetDigest := index labels labelTurboOCIDigest\<rparr>;
          lower = (if isGzipLayer (index labels labelTurboOCIMediaType)
                   then lower\<lparr>Lower_GzipIndex := Join [snDir, gzipIndexFile]\<rparr> else lower) in
      if parent \<noteq> [] then
        (case ReadConfig d (Join [parentDir, configFile]) of
           Inl e \<Rightarrow> (Some e, d)
         | Inr parentConfJSON \<Rightarrow>
             WriteConfig env d
               (configJSON\<lparr>RepoBlobURL := RepoBlobURL parentConfJSON,
                           Lowers := Lowers parentConfJSON @ [lower]\<rparr>)
               (Join [snDir, configFile]))
      else
        (case labels labelImageRef of
           None \<Rightarrow> (Some (Msg ''no image-ref label''), d)
         | Some ref \<Rightarrow>
             (case constructImageBlobURL env ref of
                Inl e \<Rightarrow>
                  (Some (Wrap ''failed to construct image blob prefix url for snapshot'' e), d)
              | Inr blobPrefixURL \<Rightarrow>
                  WriteConfig env d
                    (configJSON\<lparr>ImageRef := ref, RepoBlobURL := blobPrefixURL,
                                Lowers := [lower]\<rparr>)
                    (Join [snDir, configFile]))))"

definition ConstructOverlayBDSpec ::
  "config_env \<Rightarrow> disk \<Rightarrow> string \<Rightarrow> labels \<Rightarrow> string \<Rightarrow> string \<Rightarrow> string \<Rightarrow> string
     \<Rightarrow> error option \<times> disk" where
  "ConstructOverlayBDSpec env d parent labels snDir parentDir blobDigest blobSize =
     (let configJSON = Config0\<lparr>Lowers := [], ResultFile := OverlaybdInitDebuglogPath snDir\<rparr>;
          layerConfig = LowerConfig0\<lparr>Lower_Digest := blobDigest,
                          Lower_Size := uint64 (Atoi blobSize), Lower_Dir := snDir\<rparr> in
      case labels labelImageRef of
        None \<Rightarrow> (Some (Msg ''no image-ref label''), d)
      | Some ref \<Rightarrow>
          (case constructImageBlobURL env ref of
             Inl e \<Rightarrow>
               (Some (Wrap ''failed to construct image blob prefix url for snapshot'' e), d)
           | Inr blobPrefixURL \<Rightarrow>
               if parent = [] then
                 WriteConfig env d
                   (configJSON\<lparr>RepoBlobURL := blobPrefixURL,
                      Lowers := [LowerConfig0\<lparr>Lower_Dir := overlaybdBaseLayerDir\<rparr>, layerConfig],
                      RecordTracePath := [], ImageRef := ref\<rparr>)
                   (Join [snDir, configFile])
               else
                 (case ReadConfig d (Join [parentDir, configFile]) of
                    Inl e \<Rightarrow> (Some e, d)
                  | Inr parentConfJSON \<Rightarrow>
                      WriteConfig env d
                        (configJSON\<lparr>RepoBlobURL :=
                             (if blobPrefixURL = [] then RepoBlobURL parentConfJSON
                              else blobPrefixURL),
                           Lowers := Lowers parentConfJSON @ [layerConfig],
                           RecordTracePath := [], ImageRef := ref\<rparr>)
                        (Join [snDir, configFile]))))"

definition ConstructOverlayBDWritableSpec ::
  "config_env \<Rightarrow> disk \<Rightarrow> string \<Rightarrow> string \<Rightarrow> error option \<times> disk" where
  "ConstructOverlayBDWritableSpec env d dir parent =
     (let configJSON = Config0\<lparr>Lowers := [], ResultFile := OverlaybdInitDebuglogPath dir\<rparr> in
      case ReadConfig d (Join [parent, configFile]) of
        Inl e \<Rightarrow> (Some e, d)
      | Inr parentConfJSON \<Rightarrow>
          WriteConfig env d
            (configJSON\<lparr>RepoBlobURL := RepoBlobURL parentConfJSON,
               Lowers := Lowers parentConfJSON,
               Upper := \<lparr>Upper_Index = Join [dir, idxFile], Upper_Data = Join [dir, dataFile]\<rparr>\<rparr>)
            (Join [dir, configFile]))"

section \<open>The read-only layer driver (package overlaybd)\<close>

subsection \<open>PreProcess\<close>

text \<open>
  \<open>PreProcess\<close>: the flag \<open>skipFetch\<close>, the error, and the disk after the call.
\<close>

definition PreProcess ::
  "config_env \<Rightarrow> disk \<Rightarrow> string \<Rightarrow> string \<Rightarrow> string \<Rightarrow> labels \<Rightarrow> (bool \<times> error option) \<times> disk" where
  "PreProcess env d keyDir parentDir parent labels =
     (case (labels labelKeyOverlayBDBlobSize, labels labelKeyOverlayBDBlobDigest) of
        (Some blobSize, Some blobDigest) \<Rightarrow>
          (case labels labelTurboOCIDigest of
             Some t \<Rightarrow>
               (case ConstructTurboOCISpec env d parent labels keyDir parentDir blobDigest blobSize of
                  (Some err, d') \<Rightarrow> ((False, Some err), d')
                | (None, d') \<Rightarrow> ((False, None), d'))
           | None \<Rightarrow>
               (case ConstructOverlayBDSpec env d parent labels keyDir parentDir blobDigest blobSize of
                  (Some err, d') \<Rightarrow> ((False, Some err), d')
                | (None, d') \<Rightarrow> ((True, None), d')))
      | _ \<Rightarrow> ((False, None), d))"

subsection \<open>Constants and derived names\<close>

definition obdLoopNaaPrefix :: nat where
  "obdLoopNaaPrefix = 199"

definition obdHbaNum :: nat where
  "obdHbaNum = 999999999"

definition obdMaxDataAreaMB :: nat where
  "obdMaxDataAreaMB = 4"

definition timeout :: nat where
  "timeout = 20"

definition maxAttachAttempts :: nat where
  "maxAttachAttempts = 400"

definition lowerFile :: string where
  "lowerFile = ''device''"

definition tmpTarIndex :: string where
  "tmpTarIndex = ''layer.tar.meta''"

definition TarFileName :: string where
  "TarFileName = ''layer.tar''"

definition overlaybdCreateBinary :: string where
  "overlaybdCreateBinary = ''/opt/overlaybd/bin/overlaybd-create''"

definition ConverterBinary :: string where
  "ConverterBinary = ''/opt/overlaybd/convert/bin/turboOCI-apply''"

definition ConverterMergeBinary :: string where
  "ConverterMergeBinary = ''/opt/overlaybd/convert/bin/overlaybd-convert-acs''"

definition SIGINT :: nat where
  "SIGINT = 2"

definition SIGUSR2 :: nat where
  "SIGUSR2 = 12"

text \<open>The verb \<open>%d\<close> of \<open>fmt.Sprintf\<close> for a natural number.\<close>

function showNat :: "nat \<Rightarrow> string" where
  "showNat n =
     (if n < 10 then [''0123456789'' ! n]
      else showNat (n div 10) @ [''0123456789'' ! (n mod 10)])"
  by pat_completeness auto
termination
  by (relation "measure (\<lambda>n. n)") auto

declare showNat.simps [simp del]

text \<open>
  \<open>overlaybdLoopbackDeviceID\<close>: \<open>strings.Repeat\<close> panics on a negative count, that is
  for an id of more than 13 bytes; \<open>None\<close> is that panic.
\<close>

definition overlaybdLoopbackDeviceID :: "string \<Rightarrow> string option" where
  "overlaybdLoopbackDeviceID sid =
     (if 13 < length sid then None
      else Some (''naa.'' @ showNat obdLoopNaaPrefix @ replicate (13 - length sid) CHR ''0'' @ sid))"

definition overlaybdLoopbackDeviceLunPath :: "string \<Rightarrow> string" where
  "overlaybdLoopbackDeviceLunPath sid =
     ''/sys/kernel/config/target/loopback/'' @ sid @ ''/tpgt_1/lun/lun_0''"

definition overlaybdLoopbackDevicePath :: "string \<Rightarrow> string" where
  "overlaybdLoopbackDevicePath sid = ''/sys/kernel/config/target/loopback/'' @ sid"

definition overlaybdTargetPath :: "string \<Rightarrow> string" where
  "overlaybdTargetPath sid =
     ''/sys/kernel/config/target/core/user_'' @ showNat obdHbaNum @ ''/dev_'' @ sid"

definition scsiBlockDevicePath :: "string \<Rightarrow> string" where
  "scsiBlockDevicePath deviceNumber =
     ''/sys/class/scsi_device/'' @ deviceNumber @ '':0/device/block''"

subsection \<open>The machine the driver runs on\<close>

text \<open>
  The state the driver changes: the file tree (configfs and the layer directories), the
  commands run, the signals sent to the service process of a layer, and the time slept,
  in microseconds.
\<close>

record machine =
  tree :: "string \<rightharpoonup> node"
  execs :: "(string \<times> string list) list"
  signals :: "(string \<times> nat) list"
  slept :: nat

text \<open>
  What the machine answers, call by call. A call that fails leaves the tree as it is. The
  calls the driver repeats (the write to \<open>enable\<close>, the reads of the debug log and of the
  block-device directory, the process listing) are answered by attempt number, since the
  answer changes while the driver waits.
\<close>

record driver_env =
  mkdirAll :: "string \<Rightarrow> error option"
  removeAll :: "string \<Rightarrow> error option"
  writeFile :: "string \<Rightarrow> string \<Rightarrow> error option"
  writeEnable :: "nat \<Rightarrow> error option"
  readLog :: "nat \<Rightarrow> error + string"
  readFile :: "string \<Rightarrow> error + string"
  readDir :: "string \<Rightarrow> nat \<Rightarrow> error + string list"
  symlink :: "string \<Rightarrow> string \<Rightarrow> error option"
  stat :: "string \<Rightarrow> error option"
  exec :: "string \<Rightarrow> string list \<Rightarrow> error option"
  psFind :: "string \<Rightarrow> string"
  psCount :: "string \<Rightarrow> nat \<Rightarrow> string"
  cfg :: config_env

definition Sleep :: "nat \<Rightarrow> machine \<Rightarrow> machine" where
  "Sleep us m = m\<lparr>slept := slept m + us\<rparr>"

definition under :: "string \<Rightarrow> string \<Rightarrow> bool" where
  "under p q = (q = p \<or> HasPrefix q (p @ ''/''))"

definition MkdirAll :: "driver_env \<Rightarrow> string \<Rightarrow> machine \<Rightarrow> error option \<times> machine" where
  "MkdirAll env p m =
     (case mkdirAll env p of
        Some e \<Rightarrow> (Some e, m)
      | None \<Rightarrow>
          (None, m\<lparr>tree := (\<lambda>q. if q \<noteq> [] \<and> under q p \<and> tree m q = None then Some Directory
                               else tree m q)\<rparr>))"

definition RemoveAll :: "driver_env \<Rightarrow> string \<Rightarrow> machine \<Rightarrow> error option \<times> machine" where
  "RemoveAll env p m =
     (case removeAll env p of
        Some e \<Rightarrow> (Some e, m)
      | None \<Rightarrow> (None, m\<lparr>tree := (\<lambda>q. if under p q then None else tree m q)\<rparr>))"

definition WriteFile :: "driver_env \<Rightarrow> string \<Rightarrow> string \<Rightarrow> machine \<Rightarrow> error option \<times> machine" where
  "WriteFile env p b m =
     (case writeFile env p b of
        Some e \<Rightarrow> (Some e, m)
      | None \<Rightarrow> (None, m\<lparr>tree := (tree m)(p \<mapsto> Regular (Bytes b))\<rparr>))"

definition Symlink :: "driver_env \<Rightarrow> string \<Rightarrow> string \<Rightarrow> machine \<Rightarrow> error option \<times> machine" where
  "Symlink env oldname newname m =
     (case symlink env oldname newname of
        Some e \<Rightarrow> (Some e, m)
      | None \<Rightarrow> (None, m\<lparr>tree := (tree m)(newname \<mapsto> Link oldname)\<rparr>))"

definition Exec :: "driver_env \<Rightarrow> string \<Rightarrow> string list \<Rightarrow> machine \<Rightarrow> error option \<times> machine" where
  "Exec env name args m = (exec env name args, m\<lparr>execs := execs m @ [(name, args)]\<rparr>)"

subsection \<open>killProcess\<close>

text \<open>\<open>strings.Trim(s, "\n ")\<close>.\<close>

definition Trim :: "string \<Rightarrow> string" where
  "Trim s =
     (let cut = (\<lambda>c. c = CHR 0x0A \<or> c = CHR '' '') in
      rev (dropWhile cut (rev (dropWhile cut s))))"

text \<open>Whether \<open>strconv.Atoi\<close> returns no error.\<close>

definition AtoiOk :: "string \<Rightarrow> bool" where
  "AtoiOk s =
     (let ds = (if s \<noteq> [] \<and> (hd s = CHR ''-'' \<or> hd s = CHR ''+'') then tl s else s) in
      ds \<noteq> [] \<and> list_all isDigit ds \<and> decimal ds < 2 ^ 63 + (if hd s = CHR ''-'' then 1 else 0))"

text \<open>
  The loop that waits for the process to go: \<open>n\<close> iterations are left, \<open>i\<close> is the index
  of the next one.
\<close>

fun killWait :: "driver_env \<Rightarrow> string \<Rightarrow> nat \<Rightarrow> nat \<Rightarrow> machine \<Rightarrow> error option \<times> machine" where
  "killWait env sid 0 i m =
     (Some (Msg (''timeout killing overlaybd process for snID: '' @ sid)), m)"
| "killWait env sid (Suc n) i m =
     (let strVal = Trim (psCount env sid i) in
      if \<not> AtoiOk strVal then killWait env sid n (Suc i) (Sleep 20 m)
      else if Atoi strVal = 0 then (None, m)
      else killWait env sid n (Suc i) (Sleep 20 m))"

definition killProcess :: "driver_env \<Rightarrow> string \<Rightarrow> nat \<Rightarrow> machine \<Rightarrow> error option \<times> machine" where
  "killProcess env sid signal m =
     (let strVal = Trim (psFind env sid) in
      if strVal = [] then (None, m)
      else
        let m1 = m\<lparr>signals := signals m @ [(sid, signal)]\<rparr> in
        if signal = SIGUSR2 then (None, m1)
        else killWait env sid 500 0 m1)"


subsection \<open>The attach (doOverlayBD)\<close>

datatype attach_result = Device string | Failed error | Panicked string

text \<open>
  The loop that writes \<open>1\<close> to \<open>enable\<close>: \<open>n\<close> iterations are left, \<open>retry\<close> is the index of
  the next one. \<open>Inl\<close> is the return from inside the loop (an error other than
  \<open>EAGAIN\<close>); \<open>Inr\<close> is the value of \<open>err\<close> when the loop is left.
\<close>

fun enableLoop ::
  "driver_env \<Rightarrow> string \<Rightarrow> nat \<Rightarrow> nat \<Rightarrow> error option \<Rightarrow> machine
     \<Rightarrow> (error + error option) \<times> machine" where
  "enableLoop env targetPath 0 retry err m = (Inr err, m)"
| "enableLoop env targetPath (Suc n) retry err m =
     (case writeEnable env retry of
        None \<Rightarrow>
          (Inr None, m\<lparr>tree := (tree m)(Join [targetPath, ''enable''] \<mapsto> Regular (Bytes ''1''))\<rparr>)
      | Some (Sys EAGAIN) \<Rightarrow>
          enableLoop env targetPath n (Suc retry) (Some (Sys EAGAIN)) (Sleep 50000 m)
      | Some e \<Rightarrow> (Inl (Wrap (''failed to write enable for '' @ targetPath) e), m))"

text \<open>
  The loop that reads the debug log: \<open>Inl\<close> is the return from inside the loop (a content
  other than \<open>success\<close>); \<open>Inr\<close> is the value of \<open>err\<close> when the loop is left.
\<close>

fun readyLoop ::
  "driver_env \<Rightarrow> string \<Rightarrow> nat \<Rightarrow> nat \<Rightarrow> error option \<Rightarrow> machine
     \<Rightarrow> (error + error option) \<times> machine" where
  "readyLoop env targetPath 0 retry err m = (Inr err, m)"
| "readyLoop env targetPath (Suc n) retry err m =
     (case readLog env retry of
        Inl derr \<Rightarrow> readyLoop env targetPath n (Suc retry) (Some derr) (Sleep 20000 m)
      | Inr data \<Rightarrow>
          if data = ''success'' then (Inr None, m)
          else (Inl (Msg (''failed to enable target for '' @ targetPath @ '': '' @ data)), m))"

definition retryTimes :: nat where
  "retryTimes = timeout * 1000 div 20"

text \<open>
  The loop that looks for the block device: the device found, or the last error when
  the attempts are used up.
\<close>

fun probeLoop ::
  "driver_env \<Rightarrow> string \<Rightarrow> nat \<Rightarrow> nat \<Rightarrow> error option \<Rightarrow> machine
     \<Rightarrow> (error option + string) \<times> machine" where
  "probeLoop env deviceNumber 0 retry lastErr m = (Inl lastErr, m)"
| "probeLoop env deviceNumber (Suc n) retry lastErr m =
     (case readDir env (scsiBlockDevicePath deviceNumber) retry of
        Inl err \<Rightarrow> probeLoop env deviceNumber n (Suc retry) (Some err) (Sleep 5000 m)
      | Inr [] \<Rightarrow>
          probeLoop env deviceNumber n (Suc retry) (Some (Msg ''empty device found''))
            (Sleep 5000 m)
      | Inr (dev # devs) \<Rightarrow> (Inr (''/dev/'' @ dev), m))"

text \<open>\<open>strings.TrimSuffix\<close>.\<close>

definition TrimSuffix :: "string \<Rightarrow> string \<Rightarrow> string" where
  "TrimSuffix s suffix =
     (if length suffix \<le> length s \<and> drop (length s - length suffix) s = suffix
      then take (length s - length suffix) s else s)"

text \<open>
  The four deferred functions of \<open>doOverlayBD\<close>, in the order they are registered. Each
  runs when the function returns an error, and its own errors are logged only.
\<close>

definition deferTarget :: "driver_env \<Rightarrow> string \<Rightarrow> machine \<Rightarrow> machine" where
  "deferTarget env targetPath m = snd (RemoveAll env targetPath m)"

definition deferKill :: "driver_env \<Rightarrow> string \<Rightarrow> machine \<Rightarrow> machine" where
  "deferKill env snID m = snd (killProcess env snID SIGINT m)"

definition deferLoopback :: "driver_env \<Rightarrow> string \<Rightarrow> string \<Rightarrow> string \<Rightarrow> machine \<Rightarrow> machine" where
  "deferLoopback env lunPath tpgtPath loopDevPath m =
     snd (RemoveAll env loopDevPath (snd (RemoveAll env tpgtPath (snd (RemoveAll env lunPath m)))))"

definition deferLink :: "driver_env \<Rightarrow> string \<Rightarrow> machine \<Rightarrow> machine" where
  "deferLink env linkPath m = snd (RemoveAll env linkPath m)"

text \<open>
  The body of \<open>doOverlayBD\<close>, cut where a deferred function is registered: each part runs
  the rest and, when the rest returns an error, the deferred function registered at its
  start. The function has returned nothing yet when it panics, so the deferred functions
  find \<open>retErr\<close> nil and do nothing.
\<close>

definition afterLink ::
  "driver_env \<Rightarrow> string \<Rightarrow> string \<Rightarrow> machine \<Rightarrow> attach_result \<times> machine" where
  "afterLink env snID tpgtPath m =
     (let devAddressPath = Join [tpgtPath, ''address''] in
      case readFile env devAddressPath of
        Inl err \<Rightarrow>
          (Failed (Wrap (''failed to read loopback address for '' @ devAddressPath) err), m)
      | Inr bytes \<Rightarrow>
          let deviceNumber = TrimSuffix bytes [CHR 0x0A] in
          (case probeLoop env deviceNumber maxAttachAttempts 0 None m of
             (Inr device, m1) \<Rightarrow> (Device device, m1)
           | (Inl (Some lastErr), m1) \<Rightarrow> (Failed lastErr, m1)
           | (Inl None, m1) \<Rightarrow> (Device [], m1)))"

definition afterLun ::
  "driver_env \<Rightarrow> string \<Rightarrow> string \<Rightarrow> string \<Rightarrow> string \<Rightarrow> string \<Rightarrow> machine
     \<Rightarrow> attach_result \<times> machine" where
  "afterLun env snID targetPath loopDevID tpgtPath lunPath m =
     (let nexusPath = Join [tpgtPath, ''nexus''] in
      case WriteFile env nexusPath loopDevID m of
        (Some err, m1) \<Rightarrow>
          (Failed (Wrap (''failed to write loopback nexus '' @ nexusPath) err), m1)
      | (None, m1) \<Rightarrow>
          let linkPath = Join [lunPath, ''dev_'' @ snID] in
          (case Symlink env targetPath linkPath m1 of
             (Some err, m2) \<Rightarrow>
               (Failed (Wrap (''failed to create loopback link '' @ linkPath) err), m2)
           | (None, m2) \<Rightarrow>
               (case afterLink env snID tpgtPath m2 of
                  (Failed e, m3) \<Rightarrow> (Failed e, deferLink env linkPath m3)
                | r \<Rightarrow> r)))"

definition afterEnable ::
  "driver_env \<Rightarrow> string \<Rightarrow> string \<Rightarrow> error option \<Rightarrow> machine \<Rightarrow> attach_result \<times> machine" where
  "afterEnable env snDir snID err m =
     (let targetPath = overlaybdTargetPath snID in
      case err of
        Some e \<Rightarrow> (Failed (Wrap (''failed to write enable for '' @ targetPath) e), m)
      | None \<Rightarrow>
          (case WriteFile env (Join [targetPath, ''attrib'', ''cmd_time_out''])
                  (showNat (2147483647 div 1000)) m of
             (Some e, m1) \<Rightarrow> (Failed (Wrap ''failed to update cmd_time_out'' e), m1)
           | (None, m1) \<Rightarrow>
               (case readyLoop env targetPath retryTimes 0 (Some (Msg ''timeout'')) m1 of
                  (Inl e, m2) \<Rightarrow> (Failed e, m2)
                | (Inr (Some e), m2) \<Rightarrow>
                    (Failed (Wrap (''failed to enable target for '' @ targetPath) e), m2)
                | (Inr None, m2) \<Rightarrow>
                    (case overlaybdLoopbackDeviceID snID of
                       None \<Rightarrow> (Panicked ''strings: negative Repeat count'', m2)
                     | Some loopDevID \<Rightarrow>
                         let loopDevPath = overlaybdLoopbackDevicePath loopDevID in
                         (case MkdirAll env loopDevPath m2 of
                            (Some e, m3) \<Rightarrow>
                              (Failed (Wrap (''failed to create loopback dir '' @ loopDevPath) e), m3)
                          | (None, m3) \<Rightarrow>
                              let tpgtPath = Join [loopDevPath, ''tpgt_1''];
                                  lunPath = overlaybdLoopbackDeviceLunPath loopDevID in
                              (case MkdirAll env lunPath m3 of
                                 (Some e, m4) \<Rightarrow>
                                   (Failed (Wrap (''failed to create loopback lun dir '' @ lunPath) e),
                                    m4)
                               | (None, m4) \<Rightarrow>
                                   (case afterLun env snID targetPath loopDevID tpgtPath lunPath m4 of
                                      (Failed e, m5) \<Rightarrow>
                                        (Failed e, deferLoopback env lunPath tpgtPath loopDevPath m5)
                                    | r \<Rightarrow> r)))))))"

definition afterTarget ::
  "driver_env \<Rightarrow> string \<Rightarrow> string \<Rightarrow> machine \<Rightarrow> attach_result \<times> machine" where
  "afterTarget env snDir snID m =
     (let targetPath = overlaybdTargetPath snID in
      case WriteFile env (Join [targetPath, ''control''])
             (''dev_config=overlaybd/'' @ OverlaybdConfPath snDir @ '';'' @ snID) m of
        (Some e, m1) \<Rightarrow>
          (Failed (Wrap (''failed to write target dev_config for '' @ targetPath) e), m1)
      | (None, m1) \<Rightarrow>
          (case WriteFile env (Join [targetPath, ''control''])
                  (''max_data_area_mb='' @ showNat obdMaxDataAreaMB) m1 of
             (Some e, m2) \<Rightarrow>
               (Failed (Wrap (''failed to write target max_data_area_mb for '' @ targetPath) e), m2)
           | (None, m2) \<Rightarrow>
               (case RemoveAll env (OverlaybdInitDebuglogPath snDir) m2 of
                  (Some e, m3) \<Rightarrow>
                    (Failed (Wrap (''failed to remote result file for '' @ targetPath) e), m3)
                | (None, m3) \<Rightarrow>
                    (case enableLoop env targetPath 100 0 None m3 of
                       (Inl e, m4) \<Rightarrow> (Failed e, m4)
                     | (Inr err, m4) \<Rightarrow>
                         (case afterEnable env snDir snID err m4 of
                            (Failed e, m5) \<Rightarrow> (Failed e, deferKill env snID m5)
                          | r \<Rightarrow> r)))))"

definition doOverlayBD ::
  "driver_env \<Rightarrow> string \<Rightarrow> string \<Rightarrow> machine \<Rightarrow> attach_result \<times> machine" where
  "doOverlayBD env snDir snID m =
     (let targetPath = overlaybdTargetPath snID in
      case MkdirAll env targetPath m of
        (Some e, m1) \<Rightarrow> (Failed (Wrap (''failed to create target dir for '' @ targetPath) e), m1)
      | (None, m1) \<Rightarrow>
          (case afterTarget env snDir snID m1 of
             (Failed e, m2) \<Rightarrow> (Failed e, deferTarget env targetPath m2)
           | r \<Rightarrow> r))"


subsection \<open>ActiveMount\<close>

record Mount =
  Type :: string
  Source :: string
  Options :: "string list"

datatype 'a result = Ok 'a | Err error | Panic string

text \<open>
  The first loop of \<open>ActiveMount\<close>: each parent path is replaced, in place, by the path
  of its \<open>layer.tar.meta\<close>; the loop stops at the first one that is not there.
\<close>

fun convertedLoop :: "driver_env \<Rightarrow> string list \<Rightarrow> bool \<times> string list" where
  "convertedLoop env [] = (True, [])"
| "convertedLoop env (p # ps) =
     (case stat env (Join [p, tmpTarIndex]) of
        Some err \<Rightarrow> (False, Join [p, tmpTarIndex] # ps)
      | None \<Rightarrow>
          (case convertedLoop env ps of (b, ps') \<Rightarrow> (b, Join [p, tmpTarIndex] # ps')))"

text \<open>The second loop: each parent path is put, with its flag, in front of the arguments.\<close>

fun metaArgs :: "string list \<Rightarrow> string list \<Rightarrow> string list" where
  "metaArgs [] args = args"
| "metaArgs (parentPath # ps) args = metaArgs ps ([''--meta'', parentPath] @ args)"

definition overlaybdCreate :: "driver_env \<Rightarrow> string \<Rightarrow> machine \<Rightarrow> error option \<times> machine" where
  "overlaybdCreate env snDir m =
     (let str = overlaybdCreateBinary @ '' -s '' @ Join [snDir, dataFile] @ '' '' @
                Join [snDir, idxFile] @ '' 256 '' in
      case Exec env ''/bin/bash'' [''-c'', str] m of
        (Some err, m1) \<Rightarrow> (Some (Wrap ''overlaybd-create failed. output'' err), m1)
      | (None, m1) \<Rightarrow> (None, m1))"

definition ActiveMount ::
  "driver_env \<Rightarrow> string \<Rightarrow> string \<Rightarrow> string \<Rightarrow> string list \<Rightarrow> machine
     \<Rightarrow> Mount list result \<times> machine" where
  "ActiveMount env snDir sid parentDir parentPaths m =
     (case convertedLoop env parentPaths of
        (localConverted, parentPaths') \<Rightarrow>
          (case (if localConverted
                 then Exec env ConverterMergeBinary
                        (metaArgs parentPaths' [''--workdir'', Join [snDir, ''tmp'']]) m
                 else (None, m)) of
             (Some err, m1) \<Rightarrow> (Err (Wrap ''failed to merge image file'' err), m1)
           | (None, m1) \<Rightarrow>
               (case overlaybdCreate env snDir m1 of
                  (Some err, m2) \<Rightarrow> (Err (Wrap ''overlaybd-create failed'' err), m2)
                | (None, m2) \<Rightarrow>
                    (case ConstructOverlayBDWritableSpec (cfg env) (tree m2) snDir parentDir of
                       (Some err, t) \<Rightarrow>
                         (Err (Wrap ''construct overlaybd writable spec failed'' err),
                          m2\<lparr>tree := t\<rparr>)
                     | (None, t) \<Rightarrow>
                         (case doOverlayBD env snDir sid (m2\<lparr>tree := t\<rparr>) of
                            (Failed err, m3) \<Rightarrow>
                              (Err (Wrap ''construct overlaybd debug log path failed'' err), m3)
                          | (Panicked msg, m3) \<Rightarrow> (Panic msg, m3)
                          | (Device dev, m3) \<Rightarrow>
                              (case WriteFile env (Join [snDir, lowerFile]) dev m3 of
                                 (Some err, m4) \<Rightarrow> (Err err, m4)
                               | (None, m4) \<Rightarrow>
                                   (Ok [\<lparr>Type = ''ext4'', Source = dev, Options = [''ro'']\<rparr>],
                                    m4)))))))"

text \<open>An environment in which every call succeeds at once and no service process runs.\<close>

definition quietEnv :: driver_env where
  "quietEnv =
     \<lparr>mkdirAll = (\<lambda>p. None), removeAll = (\<lambda>p. None), writeFile = (\<lambda>p b. None),
      writeEnable = (\<lambda>i. None), readLog = (\<lambda>i. Inr ''success''),
      readFile = (\<lambda>p. Inr ''7''), readDir = (\<lambda>p i. Inr [''sdb'']),
      symlink = (\<lambda>p q. None), stat = (\<lambda>p. None), exec = (\<lambda>c args. None),
      psFind = (\<lambda>sid. []), psCount = (\<lambda>sid i. ''0''),
      cfg = \<lparr>referenceParse = (\<lambda>r. Inl (Msg ''invalid reference'')),
             atomicWriteFile = (\<lambda>p. None)\<rparr>\<rparr>"

definition machine0 :: machine where
  "machine0 = \<lparr>tree = Map.empty, execs = [], signals = [], slept = 0\<rparr>"

section \<open>The quota provider (package sparsefile)\<close>

definition defaultFsType :: string where
  "defaultFsType = ''ext4''"

definition defaultSparsefileQuota :: int where
  "defaultSparsefileQuota = 10 * 1024 * 1024 * 1024"

definition sparseFileName :: string where
  "sparseFileName = ''rw.img''"

record sparseFileQuota =
  fsType :: string
  defaultQuota :: int

text \<open>
  The state the provider changes: the regular files with their sizes, what is mounted on
  a path, and the runs of \<open>mkfs.ext4\<close> with their arguments.
\<close>

record quota_machine =
  files :: "string \<rightharpoonup> int"
  mounted :: "string \<rightharpoonup> Mount"
  mkfsRuns :: "string list list"

text \<open>
  What the machine answers: \<open>filesystem.FindMount\<close> (the path of the mount found),
  \<open>os.Lstat\<close>, \<open>ioutil.TempFile\<close> (the name of the file made in a directory),
  \<open>os.Truncate\<close>, \<open>os.Rename\<close>, \<open>os.Remove\<close>, the exit of \<open>mkfs.ext4\<close> and the mount.
\<close>

record quota_env =
  findMount :: "string \<Rightarrow> error + string"
  lstat :: "string \<Rightarrow> error option"
  tempFile :: "string \<Rightarrow> string \<Rightarrow> error + string"
  truncateFile :: "string \<Rightarrow> int \<Rightarrow> error option"
  renameFile :: "string \<Rightarrow> string \<Rightarrow> error option"
  removeFile :: "string \<Rightarrow> error option"
  mkfs :: "string list \<Rightarrow> error option"
  mountAt :: "Mount \<Rightarrow> string \<Rightarrow> error option"

text \<open>
  \<open>createImageFile\<close>. The deferred function removes the temporary file when the
  function returns an error; an error of the removal itself is logged.
\<close>

definition createImageFile ::
  "quota_env \<Rightarrow> string \<Rightarrow> int \<Rightarrow> quota_machine \<Rightarrow> error option \<times> quota_machine" where
  "createImageFile env img sz m =
     (case tempFile env (Dir img) ''new-'' of
        Inl err \<Rightarrow> (Some err, m)
      | Inr tmpFileName \<Rightarrow>
          let m1 = m\<lparr>files := (files m)(tmpFileName \<mapsto> 0)\<rparr>;
              cleanup = (\<lambda>m'. case removeFile env tmpFileName of
                                 Some err1 \<Rightarrow> m'
                               | None \<Rightarrow> m'\<lparr>files := (files m')(tmpFileName := None)\<rparr>) in
          (case truncateFile env tmpFileName sz of
             Some err \<Rightarrow> (Some err, cleanup m1)
           | None \<Rightarrow>
               let m2 = m1\<lparr>files := (files m1)(tmpFileName \<mapsto> sz)\<rparr> in
               (case renameFile env tmpFileName img of
                  Some err \<Rightarrow> (Some err, cleanup m2)
                | None \<Rightarrow>
                    (None, m2\<lparr>files := (files m2)(tmpFileName := None, img := files m2 tmpFileName)\<rparr>))))"

definition formatImageFile ::
  "sparseFileQuota \<Rightarrow> quota_env \<Rightarrow> string \<Rightarrow> quota_machine \<Rightarrow> error option \<times> quota_machine" where
  "formatImageFile q env img m =
     (if fsType q \<noteq> ''ext4''
      then (Some (Msg (''unsupport '' @ fsType q @ '', only support ext4 file system now'')), m)
      else
        let args = [img, ''-F'', ''-E'', ''nodiscard,lazy_itable_init=0'', ''-O'', ''^has_journal''];
            m1 = m\<lparr>mkfsRuns := mkfsRuns m @ [args]\<rparr> in
        (case mkfs env args of
           Some err \<Rightarrow> (Some (Wrap ''failed to write fs'' err), m1)
         | None \<Rightarrow> (None, m1)))"

definition mountImage ::
  "quota_env \<Rightarrow> string \<Rightarrow> string \<Rightarrow> string \<Rightarrow> quota_machine \<Rightarrow> error option \<times> quota_machine" where
  "mountImage env img target rwFlag m =
     (let mnt = \<lparr>Type = defaultFsType, Source = img, Options = [''loop'', rwFlag]\<rparr> in
      case mountAt env mnt target of
        Some err \<Rightarrow> (Some err, m)
      | None \<Rightarrow> (None, m\<lparr>mounted := (mounted m)(target \<mapsto> mnt)\<rparr>))"

definition Setup ::
  "sparseFileQuota \<Rightarrow> quota_env \<Rightarrow> string \<Rightarrow> int \<Rightarrow> labels \<Rightarrow> quota_machine
     \<Rightarrow> error option \<times> quota_machine" where
  "Setup q env target sz opts m =
     (let location = (if index opts ''base'' = [] then Base target else index opts ''base'');
          rwFlag = (if index opts ''rwFlag'' = [] then ''rw'' else index opts ''rwFlag'');
          sz' = (if sz \<le> 0 then defaultQuota q else sz) in
      if findMount env target = Inr target then (None, m)
      else
        let sparseFile = Join [location, sparseFileName] in
        (case (case lstat env sparseFile of
                 None \<Rightarrow> (None, m)
               | Some e \<Rightarrow>
                   (case createImageFile env sparseFile sz' m of
                      (Some err, m1) \<Rightarrow>
                        (Some (Wrap (''failed to create image file: '' @ sparseFile) err), m1)
                    | (None, m1) \<Rightarrow>
                        (case formatImageFile q env sparseFile m1 of
                           (Some err, m2) \<Rightarrow>
                             (Some (Wrap (''failed to format image file: '' @ sparseFile) err), m2)
                         | (None, m2) \<Rightarrow> (None, m2)))) of
           (Some err, m3) \<Rightarrow> (Some err, m3)
         | (None, m3) \<Rightarrow>
             (case mountImage env sparseFile target rwFlag m3 of
                (Some err, m4) \<Rightarrow>
                  (Some (Wrap (''failed to mount image file: '' @ sparseFile @ '' to '' @ target) err),
                   m4)
              | (None, m4) \<Rightarrow> (None, m4))))"

text \<open>\<open>New\<close>, with \<open>strconv.Atoi\<close> of the option \<open>default_quota\<close>.\<close>

definition New :: "labels \<Rightarrow> sparseFileQuota" where
  "New config =
     \<lparr>fsType = (if index config ''fs_type'' = [] then defaultFsType else index config ''fs_type''),
      defaultQuota =
        (if \<not> AtoiOk (index config ''default_quota'') \<or> Atoi (index config ''default_quota'') \<le> 0
         then defaultSparsefileQuota else Atoi (index config ''default_quota''))\<rparr>"

text \<open>
  An environment of the provider in which nothing is mounted, no file is there, and every
  call succeeds; the temporary file of a directory is its \<open>new-1\<close>.
\<close>

definition quotaEnv :: quota_env where
  "quotaEnv =
     \<lparr>findMount = (\<lambda>p. Inl ErrNotFound), lstat = (\<lambda>p. Some (Sys ENOENT)),
      tempFile = (\<lambda>dir pat. Inr (Join [dir, pat @ ''1''])),
      truncateFile = (\<lambda>p n. None), renameFile = (\<lambda>p q. None), removeFile = (\<lambda>p. None),
      mkfs = (\<lambda>args. None), mountAt = (\<lambda>mnt p. None)\<rparr>"

definition quotaMachine0 :: quota_machine where
  "quotaMachine0 = \<lparr>files = Map.empty, mounted = Map.empty, mkfsRuns = []\<rparr>"

section \<open>The snapshotter's operations\<close>

subsection \<open>Snapshot records and labels\<close>

datatype Kind = KindUnknown | KindView | KindActive | KindCommitted

text \<open>
  \<open>snapshots.Info\<close>. A nil label map is \<open>None\<close>; the creation time is kept as its
  \<open>String()\<close>, the only way the snapshotter reads it.
\<close>

record Info =
  Kind :: Kind
  Name :: string
  Parent :: string
  Labels :: "labels option"
  Created :: string

record Usage =
  Inodes :: int
  Size :: int

text \<open>\<open>storage.Snapshot\<close>.\<close>

record Snapshot =
  ID :: string
  SnapshotKind :: Kind
  ParentIDs :: "string list"

definition upperdirKey :: string where
  "upperdirKey = ''containerd.io/snapshot/overlay.upperdir''"

definition activePath :: string where
  "activePath = ''containerd.io/snapshot/overlay.active.path''"

definition SnapshotterLabelOverlayActiveQuota :: string where
  "SnapshotterLabelOverlayActiveQuota = ''containerd.io/snapshot.overlay.active-quota''"

definition MaxActiveQuota :: int where
  "MaxActiveQuota = 64 * 1024 * 1024 * 1024 * 1024"

definition MinActiveQuota :: int where
  "MinActiveQuota = 1024 * 1024 * 1024"

definition SandBoxMetaFile :: string where
  "SandBoxMetaFile = ''pod_sandbox_meta''"

text \<open>Reading a key of a label map that may be nil: the value and whether it is there.\<close>

definition lookupLabel :: "labels option \<Rightarrow> string \<Rightarrow> string option" where
  "lookupLabel ls k = (case ls of None \<Rightarrow> None | Some m \<Rightarrow> m k)"

subsection \<open>Paths of a layer\<close>

definition getActivePath :: "Info \<Rightarrow> string \<Rightarrow> error + string" where
  "getActivePath info key =
     (case Labels info of
        None \<Rightarrow> Inl (Wrap ''active snapshot path is not specified'' ErrNotFound)
      | Some ls \<Rightarrow>
          (case ls activePath of
             None \<Rightarrow> Inl (Wrap ''active snapshot path is not specified'' ErrNotFound)
           | Some home \<Rightarrow>
               if \<not> IsAbs home
               then Inl (Wrap ''path for active layer must be an absolute path'' ErrInvalidArgument)
               else if key = [] then Inr (Join [home, ''.rwlayer'', Created info])
               else Inr (Join [home, ''.rwlayer'', key])))"

text \<open>
  The three path functions take a pointer to the info, which may be nil.
\<close>

definition fsPath :: "snapshotter \<Rightarrow> Info option \<Rightarrow> string \<Rightarrow> string \<Rightarrow> string" where
  "fsPath sn info sid key =
     (case info of
        None \<Rightarrow> Join [root sn, ''snapshots'', sid]
      | Some i \<Rightarrow>
          (case getActivePath i key of
             Inr home \<Rightarrow> Join [home, sid]
           | Inl err \<Rightarrow>
               if lookupLabel (Labels i) ''rwlayer'' \<noteq> None
               then Join [defaultUpperDir sn, ''snapshots'', sid]
               else Join [root sn, ''snapshots'', sid]))"

definition upperPath :: "snapshotter \<Rightarrow> Info option \<Rightarrow> string \<Rightarrow> string \<Rightarrow> string" where
  "upperPath sn info sid key =
     (case info of
        None \<Rightarrow> Join [root sn, ''snapshots'', sid, ''upper'']
      | Some i \<Rightarrow>
          (case getActivePath i key of
             Inr home \<Rightarrow> Join [home, sid, ''upper'']
           | Inl err \<Rightarrow>
               if lookupLabel (Labels i) ''rwlayer'' \<noteq> None
               then Join [defaultUpperDir sn, ''snapshots'', sid, ''upper'']
               else Join [root sn, ''snapshots'', sid, ''upper'']))"

definition lowerPath :: "snapshotter \<Rightarrow> Info option \<Rightarrow> string \<Rightarrow> string \<Rightarrow> string" where
  "lowerPath sn info sid key =
     (case info of
        None \<Rightarrow> Join [root sn, ''snapshots'', sid, ''lower'']
      | Some i \<Rightarrow>
          (case getActivePath i key of
             Inr home \<Rightarrow> Join [home, sid, ''lower'']
           | Inl err \<Rightarrow>
               if lookupLabel (Labels i) ''rwlayer'' \<noteq> None
               then Join [defaultUpperDir sn, ''snapshots'', sid, ''lower'']
               else Join [root sn, ''snapshots'', sid, ''lower'']))"

definition idToDirectory :: "snapshotter \<Rightarrow> string list \<Rightarrow> string list" where
  "idToDirectory sn ids = map (\<lambda>v. Join [root sn, ''snapshots'', v]) ids"

subsection \<open>The quota of an active layer\<close>

text \<open>
  \<open>getActiveQuota\<close>. The parameter \<open>parseQuantity\<close> stands for \<open>resource.MustParse\<close>
  followed by \<open>Value()\<close>, of the Kubernetes library: the value of a well-formed
  quantity, and \<open>None\<close> where \<open>MustParse\<close> panics.
\<close>

definition getActiveQuota :: "(string \<Rightarrow> int option) \<Rightarrow> Info \<Rightarrow> int result" where
  "getActiveQuota parseQuantity info =
     (case Labels info of
        None \<Rightarrow> Err (Wrap ''snapshot label is nil'' ErrNotFound)
      | Some ls \<Rightarrow>
          (case ls SnapshotterLabelOverlayActiveQuota of
             None \<Rightarrow> Err (Wrap ''active snapshot quota is not specified'' ErrNotFound)
           | Some quota \<Rightarrow>
               (case parseQuantity quota of
                  None \<Rightarrow> Panic ''cannot parse quantity''
                | Some s \<Rightarrow>
                    if s < MinActiveQuota \<or> MaxActiveQuota < s
                    then Err (Msg ''active snapshot quota is invalid'')
                    else Ok s)))"

text \<open>\<open>errdefs.IsNotFound\<close>: the error is, or wraps, the sentinel.\<close>

fun IsNotFound :: "error \<Rightarrow> bool" where
  "IsNotFound ErrNotFound = True"
| "IsNotFound (Wrap msg e) = IsNotFound e"
| "IsNotFound e = False"


subsection \<open>The metadata store\<close>

text \<open>
  Modelled from the spec: package storage is not part of the sources at hand. The
  specification describes it as a persistent store of layers, each with an identifier
  assigned by the store, a key or name, a kind, an optional parent and a label map,
  where keys and names are unique, a parent must resolve to a committed layer, and the
  operations are: create a snapshot (key, parent, kind), giving the new id and the chain
  of parent ids; get by key, giving the id, the info and the usage; commit an active
  layer under a name. A row is kept under its key or name; the labels of a row are the
  ones of the info the options of the call produce, and its creation time is the time
  of the store.
\<close>

record row =
  rowID :: string
  rowInfo :: Info
  rowUsage :: Usage
  rowParents :: "string list"

record store =
  rows :: "string \<rightharpoonup> row"
  seq :: nat
  clock :: string

definition CreateSnapshot ::
  "store \<Rightarrow> Kind \<Rightarrow> string \<Rightarrow> string \<Rightarrow> Info \<Rightarrow> error + (Snapshot \<times> store)" where
  "CreateSnapshot st kind key parent base =
     (if rows st key \<noteq> None then Inl (Wrap (''snapshot '' @ key) ErrAlreadyExists)
      else
        (case (if parent = [] then Inr []
               else (case rows st parent of
                       None \<Rightarrow> Inl (Wrap ''missing parent'' ErrNotFound)
                     | Some p \<Rightarrow>
                         if Kind (rowInfo p) \<noteq> KindCommitted
                         then Inl (Wrap ''parent is not committed snapshot'' ErrInvalidArgument)
                         else Inr (rowID p # rowParents p))) of
           Inl e \<Rightarrow> Inl e
         | Inr parents \<Rightarrow>
             let sid = showNat (Suc (seq st));
                 r = \<lparr>rowID = sid,
                      rowInfo = base\<lparr>Kind := kind, Name := key, Parent := parent, Created := clock st\<rparr>,
                      rowUsage = \<lparr>Inodes = 0, Size = 0\<rparr>, rowParents = parents\<rparr> in
             Inr (\<lparr>ID = sid, SnapshotKind = kind, ParentIDs = parents\<rparr>,
                  st\<lparr>rows := (rows st)(key \<mapsto> r), seq := Suc (seq st)\<rparr>)))"

definition GetInfo :: "store \<Rightarrow> string \<Rightarrow> error + (string \<times> Info \<times> Usage)" where
  "GetInfo st key =
     (case rows st key of
        None \<Rightarrow> Inl (Wrap ''snapshot does not exist'' ErrNotFound)
      | Some r \<Rightarrow> Inr (rowID r, rowInfo r, rowUsage r))"

definition GetSnapshot :: "store \<Rightarrow> string \<Rightarrow> error + Snapshot" where
  "GetSnapshot st key =
     (case rows st key of
        None \<Rightarrow> Inl (Wrap ''snapshot does not exist'' ErrNotFound)
      | Some r \<Rightarrow>
          Inr \<lparr>ID = rowID r, SnapshotKind = Kind (rowInfo r), ParentIDs = rowParents r\<rparr>)"

definition CommitActive :: "store \<Rightarrow> string \<Rightarrow> string \<Rightarrow> Usage \<Rightarrow> error + store" where
  "CommitActive st key name usage =
     (if name = [] then Inl (Wrap ''committed name required'' ErrInvalidArgument)
      else if rows st name \<noteq> None then Inl (Wrap (''committed snapshot '' @ name) ErrAlreadyExists)
      else
        (case rows st key of
           None \<Rightarrow> Inl (Wrap ''failed to get active snapshot'' ErrNotFound)
         | Some r \<Rightarrow>
             if Kind (rowInfo r) \<noteq> KindActive
             then Inl (Wrap ''snapshot is not active'' ErrFailedPrecondition)
             else Inr (st\<lparr>rows := (rows st)(key := None,
                          name \<mapsto> r\<lparr>rowInfo := (rowInfo r)\<lparr>Kind := KindCommitted, Name := name\<rparr>,
                                      rowUsage := usage\<rparr>)\<rparr>)))"

subsection \<open>The rest of the driver\<close>

text \<open>\<open>PrepareMount\<close>, \<open>GetMount\<close>, \<open>Commit\<close> and \<open>Cleanup\<close> of the driver.\<close>

definition PrepareMount :: "driver_env \<Rightarrow> string \<Rightarrow> error + Mount list" where
  "PrepareMount env keyDir =
     (case stat env keyDir of
        Some err \<Rightarrow> Inl (Wrap ''error stating keyDir'' err)
      | None \<Rightarrow> Inr [\<lparr>Type = ''bind'', Source = keyDir, Options = [''rbind'', ''rw'']\<rparr>])"

definition GetMount :: "driver_env \<Rightarrow> string \<Rightarrow> error + Mount list" where
  "GetMount env keyDir =
     (let devPath = Join [keyDir, lowerFile] in
      case stat env devPath of
        None \<Rightarrow>
          (case readFile env devPath of
             Inl rerr \<Rightarrow> Inl (Wrap (''failed to read device file '' @ devPath) rerr)
           | Inr bytes \<Rightarrow> Inr [\<lparr>Type = ''ext4'', Source = bytes, Options = [''ro'']\<rparr>])
      | Some (Sys ENOENT) \<Rightarrow>
          Inr [\<lparr>Type = ''bind'', Source = keyDir, Options = [''rw'', ''rbind'']\<rparr>]
      | Some err \<Rightarrow> Inl (Wrap (''failed to stat device file '' @ devPath) err))"

definition driverCommit :: "driver_env \<Rightarrow> string \<Rightarrow> machine \<Rightarrow> error option \<times> machine" where
  "driverCommit env keyDir m =
     (let tarFile = Join [keyDir, TarFileName]; tmpTarFile = Join [keyDir, tmpTarIndex] in
      case stat env tarFile of
        Some (Sys ENOENT) \<Rightarrow> (None, m)
      | Some err \<Rightarrow> (Some (Wrap ''error stating tar file'' err), m)
      | None \<Rightarrow>
          (case Exec env ConverterBinary [tarFile, tmpTarFile, ''--export''] m of
             (Some err, m1) \<Rightarrow>
               (Some (Wrap ''failed to convert tar file to overlaybd device'' err), m1)
           | (None, m1) \<Rightarrow> (None, m1)))"

definition driverCleanup :: "driver_env \<Rightarrow> string \<Rightarrow> machine \<Rightarrow> unit result \<times> machine" where
  "driverCleanup env sid m =
     (case overlaybdLoopbackDeviceID sid of
        None \<Rightarrow> (Panic ''strings: negative Repeat count'', m)
      | Some loopDevID \<Rightarrow>
          let lunPath = overlaybdLoopbackDeviceLunPath loopDevID;
              linkPath = Join [lunPath, ''dev_'' @ sid];
              loopDevPath = overlaybdLoopbackDevicePath loopDevID;
              tpgtPath = Join [loopDevPath, ''tpgt_1''];
              targetPath = overlaybdTargetPath sid in
          (case RemoveAll env linkPath m of
             (Some err, m1) \<Rightarrow> (Err (Wrap (''failed to remove loopback link '' @ linkPath) err), m1)
           | (None, m1) \<Rightarrow>
          (case RemoveAll env lunPath m1 of
             (Some err, m2) \<Rightarrow> (Err (Wrap (''failed to remove loopback lun '' @ lunPath) err), m2)
           | (None, m2) \<Rightarrow>
          (case RemoveAll env tpgtPath m2 of
             (Some err, m3) \<Rightarrow> (Err (Wrap (''failed to remove loopback tgpt '' @ tpgtPath) err), m3)
           | (None, m3) \<Rightarrow>
          (case RemoveAll env loopDevPath m3 of
             (Some err, m4) \<Rightarrow>
               (Err (Wrap (''failed to remove loopback dir '' @ loopDevPath) err), m4)
           | (None, m4) \<Rightarrow>
          (case killProcess env sid SIGINT m4 of
             (Some err, m5) \<Rightarrow>
               (Err (Wrap (''failed to kill overlaybd process, sn: '' @ sid) err), m5)
           | (None, m5) \<Rightarrow>
          (case RemoveAll env targetPath m5 of
             (Some err, m6) \<Rightarrow> (Err (Wrap (''failed to remove target dir '' @ targetPath) err), m6)
           | (None, m6) \<Rightarrow> (Ok (), m6))))))))"

subsection \<open>The world of the snapshotter\<close>

datatype tx_event = TxBegin bool | TxCommit | TxRollback

text \<open>
  The state the snapshotter works on: the machine of the driver (with the file tree),
  the state of the quota provider, the committed metadata store, and the calls made to
  the transactions, to \<open>mount.All\<close> and to the quota provider's \<open>Setup\<close>.
\<close>

record world =
  mach :: machine
  qm :: quota_machine
  db :: store
  txLog :: "tx_event list"
  mountCalls :: "(Mount list \<times> string) list"
  quotaSetups :: "(string \<times> int) list"

text \<open>
  What the snapshotter calls outside: the driver's and the provider's environments, the
  provider itself, the opening and the commit of a transaction, \<open>os.MkdirTemp\<close>,
  \<open>os.Rename\<close>, \<open>mount.All\<close>, \<open>mount.Unmount\<close>, \<open>fs.DiskUsage\<close>, the parsing of a
  quantity, and, for \<open>Remove\<close>, the provider's \<open>Remove\<close>, \<open>removeActivePath\<close>,
  \<open>storage.Remove\<close> and what \<open>getCleanupDirectories\<close> reads.
\<close>

record snap_env =
  drv :: driver_env
  qenv :: quota_env
  quotaProvider :: sparseFileQuota
  transactionContext :: "bool \<Rightarrow> error option"
  txCommit :: "error option"
  mkdirTemp :: "string \<Rightarrow> error + string"
  renamePath :: "string \<Rightarrow> string \<Rightarrow> error option"
  mountAll :: "Mount list \<Rightarrow> string \<Rightarrow> error option"
  unmountPath :: "string \<Rightarrow> error option"
  diskUsage :: "string \<Rightarrow> error + Usage"
  parseQuantity :: "string \<Rightarrow> int option"
  quotaRemove :: "string \<Rightarrow> error option"
  removeActivePath :: "Info \<Rightarrow> string \<Rightarrow> error option"
  storageRemove :: "store \<Rightarrow> string \<Rightarrow> error + store"
  cleanupEnv :: cleanup_env

definition onMach :: "(machine \<Rightarrow> 'a \<times> machine) \<Rightarrow> world \<Rightarrow> 'a \<times> world" where
  "onMach f w = (case f (mach w) of (r, m) \<Rightarrow> (r, w\<lparr>mach := m\<rparr>))"

definition logTx :: "tx_event \<Rightarrow> world \<Rightarrow> world" where
  "logTx ev w = w\<lparr>txLog := txLog w @ [ev]\<rparr>"

text \<open>\<open>t.Rollback()\<close>: the committed store stays as it is.\<close>

definition Rollback :: "world \<Rightarrow> world" where
  "Rollback w = logTx TxRollback w"

subsection \<open>prepareUpperDir\<close>

definition prepareUpperDir ::
  "snapshotter \<Rightarrow> snap_env \<Rightarrow> string \<Rightarrow> string \<Rightarrow> string \<Rightarrow> Info \<Rightarrow> world
     \<Rightarrow> unit result \<times> world" where
  "prepareUpperDir sn env target fsDir workDir base w =
     (case onMach (MkdirAll (drv env) target) w of
        (Some err, w1) \<Rightarrow> (Err (Wrap ''failed to create upper dir'' err), w1)
      | (None, w1) \<Rightarrow>
     (case onMach (MkdirAll (drv env) fsDir) w1 of
        (Some err, w2) \<Rightarrow> (Err (Wrap ''failed to create fs dir'' err), w2)
      | (None, w2) \<Rightarrow>
     (case onMach (MkdirAll (drv env) workDir) w2 of
        (Some err, w3) \<Rightarrow> (Err (Wrap ''failed to create work dir'' err), w3)
      | (None, w3) \<Rightarrow>
     (case getActiveQuota (parseQuantity env) base of
        Panic msg \<Rightarrow> (Panic msg, w3)
      | r \<Rightarrow>
          let activeQuota = (case r of Ok s \<Rightarrow> s | _ \<Rightarrow> - 1);
              w4 = (if hasQuotaDriver sn \<and> 0 < activeQuota
                    then w3\<lparr>qm := snd (Setup (quotaProvider env) (qenv env) target activeQuota
                                          [''base'' \<mapsto> target, ''rwFlag'' \<mapsto> ''rw''] (qm w3)),
                            quotaSetups := quotaSetups w3 @ [(target, activeQuota)]\<rparr>
                    else w3) in
          (case onMach (MkdirAll (drv env) fsDir) w4 of
             (Some err, w5) \<Rightarrow> (Err (Wrap ''failed to create fs dir'' err), w5)
           | (None, w5) \<Rightarrow>
          (case onMach (MkdirAll (drv env) workDir) w5 of
             (Some err, w6) \<Rightarrow> (Err (Wrap ''failed to create work dir'' err), w6)
           | (None, w6) \<Rightarrow> (Ok (), w6)))))))"

subsection \<open>prepareLower\<close>

text \<open>Making the temporary directory and renaming it, on the file tree.\<close>

definition MkdirTemp :: "snap_env \<Rightarrow> string \<Rightarrow> world \<Rightarrow> (error + string) \<times> world" where
  "MkdirTemp env dir w =
     (case mkdirTemp env dir of
        Inl err \<Rightarrow> (Inl err, w)
      | Inr td \<Rightarrow> (Inr td, w\<lparr>mach := (mach w)\<lparr>tree := (tree (mach w))(td \<mapsto> Directory)\<rparr>\<rparr>))"

definition Rename :: "snap_env \<Rightarrow> string \<Rightarrow> string \<Rightarrow> world \<Rightarrow> error option \<times> world" where
  "Rename env old new w =
     (case renamePath env old new of
        Some err \<Rightarrow> (Some err, w)
      | None \<Rightarrow>
          (None, w\<lparr>mach := (mach w)\<lparr>tree :=
             (\<lambda>q. if under new q then tree (mach w) (old @ drop (length new) q)
                  else if under old q then None else tree (mach w) q)\<rparr>\<rparr>))"

text \<open>
  The first deferred function of \<open>prepareLower\<close>: it runs when the variable \<open>err\<close> of the
  function is not nil at the return, and removes the temporary directory and, once it
  is known, the directory of the layer.
\<close>

definition deferTemp :: "snap_env \<Rightarrow> string \<Rightarrow> string \<Rightarrow> world \<Rightarrow> world" where
  "deferTemp env td path w =
     (let w1 = (if td \<noteq> [] then snd (onMach (RemoveAll (drv env) td) w) else w) in
      if path \<noteq> [] then snd (onMach (RemoveAll (drv env) path) w1) else w1)"

text \<open>
  \<open>prepareLower\<close>, on the transaction \<open>tx\<close> of its caller: the result, the transaction
  after it, and the world. The lookup of the parent declares an \<open>err\<close> of its own, so
  its failure leaves the variable of the function nil and the deferred function idle;
  so does a panic of the driver.
\<close>

definition prepareLower ::
  "snapshotter \<Rightarrow> snap_env \<Rightarrow> Kind \<Rightarrow> string \<Rightarrow> string \<Rightarrow> bool \<Rightarrow> Info \<Rightarrow> store \<Rightarrow> world
     \<Rightarrow> (Snapshot \<times> string \<times> Mount list) result \<times> store \<times> world" where
  "prepareLower sn env kind key parent isActive base tx w =
     (case (case getActivePath base key of
              Inr homePath \<Rightarrow>
                let w1 = (if stat (drv env) homePath = None
                          then snd (onMach (RemoveAll (drv env) homePath) w) else w) in
                (case onMach (MkdirAll (drv env) homePath) w1 of
                   (Some err, w2) \<Rightarrow> (Inl err, w2)
                 | (None, w2) \<Rightarrow> (Inr homePath, w2))
            | Inl err \<Rightarrow>
                (Inr (if isActive then Join [defaultUpperDir sn, ''snapshots'']
                      else Join [root sn, ''snapshots'']), w)) of
        (Inl err, w2) \<Rightarrow> (Err err, tx, w2)
      | (Inr snapshotDir, w2) \<Rightarrow>
     (case MkdirTemp env snapshotDir w2 of
        (Inl err, w3) \<Rightarrow> (Err (Wrap ''failed to create temp dir'' err), tx, w3)
      | (Inr td, w3) \<Rightarrow>
     (case CreateSnapshot tx kind key parent base of
        Inl err \<Rightarrow> (Err (Wrap ''failed to create snapshot'' err), tx, deferTemp env td [] w3)
      | Inr (s, tx1) \<Rightarrow>
          let path = fsPath sn (Some base) (ID s) key in
     (case (if parent \<noteq> []
            then (case GetInfo tx1 parent of
                    Inl err \<Rightarrow> Inl err
                  | Inr (pID, pInfo, u) \<Rightarrow> Inr (fsPath sn (Some pInfo) pID parent))
            else Inr []) of
        Inl err \<Rightarrow> (Err (Wrap ''failed to get parent snapshot'' err), tx1, w3)
      | Inr parentDir \<Rightarrow>
     (case Rename env td path w3 of
        (Some err, w4) \<Rightarrow> (Err (Wrap ''failed to rename'' err), tx1, deferTemp env td path w4)
      | (None, w4) \<Rightarrow>
     (case (if isActive
            then
              let w5 = (case lookupLabel (Labels base) ''PodSandboxMetadata'' of
                          Some data \<Rightarrow>
                            snd (onMach (WriteFile (drv env) (Join [path, SandBoxMetaFile]) data) w4)
                        | None \<Rightarrow> w4) in
              (case onMach (ActiveMount (drv env) path (ID s) parentDir
                              (idToDirectory sn (ParentIDs s))) w5 of
                 (Err err, w6) \<Rightarrow>
                   (Err (Wrap ''failed to prepare active lower dir mount'' err), w6)
               | (r, w6) \<Rightarrow> (r, w6))
            else
              (case PrepareMount (drv env) path of
                 Inl err \<Rightarrow> (Err (Wrap ''failed to prepare readable lower dir mount'' err), w4)
               | Inr mounts \<Rightarrow> (Ok mounts, w4))) of
        (Err err, w6) \<Rightarrow> (Err err, tx1, deferTemp env td path w6)
      | (Panic msg, w6) \<Rightarrow> (Panic msg, tx1, w6)
      | (Ok mounts, w6) \<Rightarrow>
          let parentPath =
                (if parent \<noteq> []
                 then (case GetInfo tx1 parent of
                         Inr (pID, pInfo, u) \<Rightarrow> fsPath sn (Some pInfo) pID parent
                       | Inl err \<Rightarrow> [])
                 else []) in
          (Ok (s, parentPath, mounts), tx1, w6)))))))"

subsection \<open>Active and Mounts\<close>

text \<open>The call \<open>o.roDriver.Cleanup(ctx, s.ID)\<close> whose error is dropped.\<close>

definition cleanupDriver :: "snap_env \<Rightarrow> string \<Rightarrow> world \<Rightarrow> unit result \<times> world" where
  "cleanupDriver env sid w = onMach (driverCleanup (drv env) sid) w"

text \<open>
  \<open>Active\<close>. The parameter \<open>base\<close> is the info the options of the call produce, the option
  that \<open>Active\<close> appends included, or the error of an option; \<open>prepareLower\<close> and the store
  apply the same options.
\<close>

definition Active ::
  "snapshotter \<Rightarrow> snap_env \<Rightarrow> string \<Rightarrow> string \<Rightarrow> error + Info \<Rightarrow> world
     \<Rightarrow> Mount list result \<times> world" where
  "Active sn env key parent base w =
     (case transactionContext env True of
        Some err \<Rightarrow> (Err err, w)
      | None \<Rightarrow>
          let w0 = logTx (TxBegin True) w in
          if parent = [] then (Err (Msg ''active layer parent cannot be nil''), w0)
          else
     (case base of
        Inl err \<Rightarrow> (Err (Wrap ''failed to apply options'' err), w0)
      | Inr b \<Rightarrow>
     (case prepareLower sn env KindActive key parent True b (db w0) w0 of
        (Err err, tx1, w1) \<Rightarrow> (Err err, Rollback w1)
      | (Panic msg, tx1, w1) \<Rightarrow> (Panic msg, w1)
      | (Ok (s, parentPath, lowerMount), tx1, w1) \<Rightarrow>
          let upperDir = upperPath sn (Some b) (ID s) key;
              lowerDir = lowerPath sn (Some b) (ID s) key;
              fsDir = Join [upperDir, ''fs''];
              workDir = Join [upperDir, ''work''] in
     (case prepareUpperDir sn env upperDir fsDir workDir b w1 of
        (Err err, w2) \<Rightarrow>
          (case cleanupDriver env (ID s) w2 of
             (Panic msg, w3) \<Rightarrow> (Panic msg, w3)
           | (r, w3) \<Rightarrow> (Err (Wrap ''failed to prepare upper dir'' err), Rollback w3))
      | (Panic msg, w2) \<Rightarrow> (Panic msg, w2)
      | (Ok u, w2) \<Rightarrow>
     (case onMach (MkdirAll (drv env) lowerDir) w2 of
        (Some err, w3) \<Rightarrow> (Err (Wrap ''failed to prepare lower dir'' err), Rollback w3)
      | (None, w3) \<Rightarrow>
     (case mountAll env lowerMount lowerDir of
        Some err \<Rightarrow>
          (case cleanupDriver env (ID s) w3 of
             (Panic msg, w4) \<Rightarrow> (Panic msg, w4)
           | (r, w4) \<Rightarrow> (Err (Wrap ''failed to mount lower dir'' err), Rollback w4))
      | None \<Rightarrow>
          let w4 = w3\<lparr>mountCalls := mountCalls w3 @ [(lowerMount, lowerDir)]\<rparr> in
     (case txCommit env of
        Some err \<Rightarrow> (Err (Wrap ''failed to commit layer'' err), Rollback (logTx TxCommit w4))
      | None \<Rightarrow>
          let options = [''lowerdir='' @ lowerDir, ''upperdir='' @ fsDir, ''workdir='' @ workDir];
              options = (if indexOff sn then options @ [''index=off''] else options);
              options = (if userxattr sn then options @ [''userxattr''] else options) in
          (Ok [\<lparr>Type = ''overlay'', Source = ''overlay'', Options = options\<rparr>],
           logTx TxCommit (w4\<lparr>db := tx1\<rparr>)))))))))"

definition Mounts :: "snapshotter \<Rightarrow> snap_env \<Rightarrow> string \<Rightarrow> world \<Rightarrow> Mount list result \<times> world" where
  "Mounts sn env key w =
     (case transactionContext env False of
        Some err \<Rightarrow> (Err err, w)
      | None \<Rightarrow>
          let w0 = logTx (TxBegin False) w in
     (case GetInfo (db w0) key of
        Inl err \<Rightarrow> (Err (Wrap (''failed to get info for snapshot '' @ key) err), w0)
      | Inr (i, info, u) \<Rightarrow>
     (case GetSnapshot (db w0) key of
        Inl err \<Rightarrow> (Err (Wrap ''failed to get active mount'' err), Rollback w0)
      | Inr s \<Rightarrow>
          let w1 = Rollback w0;
              snapshotDir = fsPath sn (Some info) (ID s) key;
              upperDir = upperPath sn (Some info) (ID s) key;
              lowerDir = lowerPath sn (Some info) (ID s) key;
              fsDir = Join [upperDir, ''fs''];
              workDir = Join [upperDir, ''work''] in
          if stat (drv env) upperDir = None
          then
            let options = [''lowerdir='' @ lowerDir, ''upperdir='' @ fsDir, ''workdir='' @ workDir];
                options = (if indexOff sn then options @ [''index=off''] else options);
                options = (if userxattr sn then options @ [''userxattr''] else options) in
            (Ok [\<lparr>Type = ''overlay'', Source = ''overlay'', Options = options\<rparr>], w1)
          else (case GetMount (drv env) snapshotDir of
                  Inl err \<Rightarrow> (Err err, w1)
                | Inr mounts \<Rightarrow> (Ok mounts, w1)))))"

subsection \<open>Commit and Prepare\<close>

text \<open>
  \<open>Commit\<close>, on the state \<open>tx\<close> of the store that the transaction it opens sees: the
  committed store for a call from outside. The result is the error, the transaction
  after the call, and the world.
\<close>

definition Commit ::
  "snapshotter \<Rightarrow> snap_env \<Rightarrow> string \<Rightarrow> string \<Rightarrow> store \<Rightarrow> world
     \<Rightarrow> error option \<times> store \<times> world" where
  "Commit sn env name key tx w =
     (case transactionContext env True of
        Some err \<Rightarrow> (Some err, tx, w)
      | None \<Rightarrow>
          let w0 = logTx (TxBegin True) w in
     (case GetInfo tx key of
        Inl err \<Rightarrow> (Some err, tx, Rollback w0)
      | Inr (sid, info, u) \<Rightarrow>
     (case diskUsage env (fsPath sn (Some info) sid key) of
        Inl err \<Rightarrow> (Some err, tx, Rollback w0)
      | Inr usage \<Rightarrow>
     (case onMach (driverCommit (drv env) (fsPath sn (Some info) sid key)) w0 of
        (Some err, w1) \<Rightarrow> (Some (Wrap ''failed to commit active mount'' err), tx, Rollback w1)
      | (None, w1) \<Rightarrow>
     (case CommitActive tx key name usage of
        Inl err \<Rightarrow> (Some (Wrap ''failed to commit snapshot'' err), tx, Rollback w1)
      | Inr tx1 \<Rightarrow>
     (case txCommit env of
        Some err \<Rightarrow> (Some err, tx1, Rollback (logTx TxCommit w1))
      | None \<Rightarrow> (None, tx1, logTx TxCommit (w1\<lparr>db := tx1\<rparr>))))))))"

text \<open>
  \<open>Prepare\<close>. The parameter \<open>commitLayer\<close> is the call \<open>o.Commit(ctx, name, key, opts...)\<close>
  made while the transaction of \<open>Prepare\<close> is open: what the transaction opened inside
  that call sees is decided by package storage.
\<close>

definition Prepare ::
  "snapshotter \<Rightarrow> snap_env \<Rightarrow>
   (string \<Rightarrow> string \<Rightarrow> store \<Rightarrow> world \<Rightarrow> error option \<times> store \<times> world) \<Rightarrow>
   string \<Rightarrow> string \<Rightarrow> error + Info \<Rightarrow> world \<Rightarrow> Mount list result \<times> world" where
  "Prepare sn env commitLayer key parent base w =
     (case transactionContext env True of
        Some err \<Rightarrow> (Err err, w)
      | None \<Rightarrow>
          let w0 = logTx (TxBegin True) w in
     (case base of
        Inl err \<Rightarrow> (Err err, w0)
      | Inr b \<Rightarrow>
     (case prepareLower sn env KindActive key parent False b (db w0) w0 of
        (Err err, tx1, w1) \<Rightarrow> (Err (Wrap ''failed to prepare'' err), w1)
      | (Panic msg, tx1, w1) \<Rightarrow> (Panic msg, w1)
      | (Ok (s, parentDir, mounts), tx1, w1) \<Rightarrow>
          let snapshotDir = fsPath sn (Some b) (ID s) key in
     (case PreProcess (cfg (drv env)) (tree (mach w1)) snapshotDir parentDir parent
             (case Labels b of None \<Rightarrow> Map.empty | Some ls \<Rightarrow> ls) of
        ((skipFetch, Some err), t) \<Rightarrow>
          (Err (Wrap (''roDriver failed preparing layer '' @ key) err),
           Rollback (w1\<lparr>mach := (mach w1)\<lparr>tree := t\<rparr>\<rparr>))
      | ((skipFetch, None), t) \<Rightarrow>
          let w2 = w1\<lparr>mach := (mach w1)\<lparr>tree := t\<rparr>\<rparr> in
          if skipFetch then
            let name = index (case Labels b of None \<Rightarrow> Map.empty | Some ls \<Rightarrow> ls) labelSnapshotRef in
            (case commitLayer name key tx1 w2 of
               (Some err, tx2, w3) \<Rightarrow>
                 (Err (Wrap (''failed to commit layer '' @ key) err), Rollback w3)
             | (None, tx2, w3) \<Rightarrow> (Err ErrAlreadyExists, Rollback w3))
          else
            (case txCommit env of
               Some err \<Rightarrow> (Err (Wrap ''failed to commit layer'' err), Rollback (logTx TxCommit w2))
             | None \<Rightarrow> (Ok mounts, logTx TxCommit (w2\<lparr>db := tx1\<rparr>)))))))"

subsection \<open>Remove\<close>

text \<open>The text of an error (\<open>err.Error()\<close>) and \<open>strings.Contains\<close>.\<close>

fun errorText :: "error \<Rightarrow> string" where
  "errorText (Sys e) = ''errno''"
| "errorText (Msg s) = s"
| "errorText (Wrap s e) = s @ '': '' @ errorText e"
| "errorText ErrAlreadyExists = ''already exists''"
| "errorText ErrNotFound = ''not found''"
| "errorText ErrInvalidArgument = ''invalid argument''"
| "errorText ErrFailedPrecondition = ''failed precondition''"

fun Contains :: "string \<Rightarrow> string \<Rightarrow> bool" where
  "Contains [] sub = (sub = [])"
| "Contains (c # cs) sub = (HasPrefix (c # cs) sub \<or> Contains cs sub)"

definition Remove :: "snapshotter \<Rightarrow> snap_env \<Rightarrow> string \<Rightarrow> world \<Rightarrow> unit result \<times> world" where
  "Remove sn env key w =
     (case transactionContext env True of
        Some err \<Rightarrow> (Err err, w)
      | None \<Rightarrow>
          let w0 = logTx (TxBegin True) w in
     (case GetInfo (db w0) key of
        Inl err \<Rightarrow>
          if Contains (errorText err) ''snapshot does not exist'' then (Ok (), Rollback w0)
          else (Err (Wrap ''failed to get snapshot info'' err), Rollback w0)
      | Inr (sid, info, u) \<Rightarrow>
          let upperDir = upperPath sn (Some info) sid key;
              lowerDir = lowerPath sn (Some info) sid key in
     (case (if stat (drv env) lowerDir = None then unmountPath env lowerDir else None) of
        Some err \<Rightarrow> (Err (Wrap ''failed to umount lower dir'' err), Rollback w0)
      | None \<Rightarrow>
     (case cleanupDriver env sid w0 of
        (Err err, w1) \<Rightarrow> (Err (Wrap ''failed to cleanup roDriver mount'' err), Rollback w1)
      | (Panic msg, w1) \<Rightarrow> (Panic msg, w1)
      | (Ok u1, w1) \<Rightarrow>
     (case getActiveQuota (parseQuantity env) info of
        Panic msg \<Rightarrow> (Panic msg, w1)
      | r \<Rightarrow>
          let activeQuota = (case r of Ok s \<Rightarrow> s | _ \<Rightarrow> - 1) in
     (case (if hasQuotaDriver sn \<and> 0 < activeQuota then quotaRemove env upperDir else None) of
        Some err \<Rightarrow> (Err (Wrap ''failed to remove active quota'' err), Rollback w1)
      | None \<Rightarrow>
     (case (case getActivePath info key of
              Inr home \<Rightarrow>
                (case removeActivePath env info key of
                   Some err \<Rightarrow> Some (Wrap (''failed to remove directory '' @ home) err)
                 | None \<Rightarrow> None)
            | Inl err \<Rightarrow> None) of
        Some err \<Rightarrow> (Err err, Rollback w1)
      | None \<Rightarrow>
     (case storageRemove env (db w0) key of
        Inl err \<Rightarrow> (Err (Wrap ''failed to remove'' err), Rollback w1)
      | Inr tx1 \<Rightarrow>
     (case (if \<not> asyncRemove sn then getCleanupDirectories sn (cleanupEnv env) else Inr []) of
        Inl err \<Rightarrow> (Err (Wrap ''unable to get directories for removal'' err), Rollback w1)
      | Inr removals \<Rightarrow>
     (case txCommit env of
        Some err \<Rightarrow> (Err err, Rollback (logTx TxCommit w1))
      | None \<Rightarrow>
          (Ok (),
           foldl (\<lambda>w' dir. snd (onMach (RemoveAll (drv env) dir) w'))
             (logTx TxCommit (w1\<lparr>db := tx1\<rparr>)) removals)))))))))))"

section \<open>A layer on a quiet machine\<close>

text \<open>
  A snapshotter with a committed layer \<open>base\<close> of id \<open>1\<close>, whose descriptor is on disk, on
  a machine where every call succeeds; \<open>20Gi\<close> and \<open>512Mi\<close> are the quantities that
  parse.
\<close>

definition demoSnapshotter :: snapshotter where
  "demoSnapshotter =
     \<lparr>root = ''/r'', asyncRemove = True, upperdirLabel = False, defaultUpperDir = ''/u'',
      indexOff = True, userxattr = False, hasQuotaDriver = True\<rparr>"

definition demoParse :: "string \<Rightarrow> int option" where
  "demoParse q =
     (if q = ''20Gi'' then Some 21474836480 else if q = ''512Mi'' then Some 536870912 else None)"

definition demoEnv :: snap_env where
  "demoEnv =
     \<lparr>drv = quietEnv, qenv = quotaEnv, quotaProvider = New Map.empty,
      transactionContext = (\<lambda>writable. None), txCommit = None,
      mkdirTemp = (\<lambda>dir. Inr (Join [dir, ''new-1''])), renamePath = (\<lambda>p q. None),
      mountAll = (\<lambda>ms p. None), unmountPath = (\<lambda>p. None),
      diskUsage = (\<lambda>p. Inr \<lparr>Inodes = 1, Size = 0\<rparr>), parseQuantity = demoParse,
      quotaRemove = (\<lambda>p. None), removeActivePath = (\<lambda>i k. None),
      storageRemove = (\<lambda>st k. Inr (st\<lparr>rows := (rows st)(k := None)\<rparr>)),
      cleanupEnv = \<lparr>beginTx = None, IDMap = Inr Map.empty, openDir = (\<lambda>p. None),
                    readdirnames = (\<lambda>p. Inr [])\<rparr>\<rparr>"

definition demoInfo :: "labels \<Rightarrow> Info" where
  "demoInfo ls = \<lparr>Kind = KindUnknown, Name = [], Parent = [], Labels = Some ls, Created = []\<rparr>"

definition demoWorld :: world where
  "demoWorld =
     \<lparr>mach = machine0\<lparr>tree := [''/r/snapshots/1/config.v1.json'' \<mapsto>
               Regular (Descriptor (Config0\<lparr>RepoBlobURL := ''https://registry.example.com/v2/app/blobs''\<rparr>))]\<rparr>,
      qm = quotaMachine0,
      db = \<lparr>rows = [''base'' \<mapsto>
                \<lparr>rowID = ''1'', rowInfo = (demoInfo Map.empty)\<lparr>Kind := KindCommitted, Name := ''base''\<rparr>,
                 rowUsage = \<lparr>Inodes = 1, Size = 0\<rparr>, rowParents = []\<rparr>],
            seq = 1, clock = ''2024-01-01''\<rparr>,
      txLog = [], mountCalls = [], quotaSetups = []\<rparr>"

section \<open>Whiteout translation: properties\<close>

text \<open>
  C8. For a tar header at path \<open>p\<close>: when the base name of \<open>p\<close> is the opaque-directory
  marker, the entry is dropped and the only call made sets the extended attribute
  \<open>trusted.overlay.opaque\<close> to \<open>y\<close> on the directory of \<open>p\<close>; otherwise, when the base name
  begins with the whiteout prefix, the entry is dropped, a character device with device
  number 0 is made at the directory of \<open>p\<close> joined with the base name without the prefix
  and, the device made, it is given the header's uid and gid; every other entry is kept,
  with no call and no error.
\<close>

theorem OverlayConvertWhiteout_cases:
  "(Base p = whiteoutOpaqueDir \<longrightarrow>
      fst (OverlayConvertWhiteout sys hdr p) = False \<and>
      snd (snd (OverlayConvertWhiteout sys hdr p)) =
        [Setxattr (Dir p) ''trusted.overlay.opaque'' ''y'' 0]) \<and>
   (Base p \<noteq> whiteoutOpaqueDir \<and> HasPrefix (Base p) whiteoutPrefix \<longrightarrow>
      fst (OverlayConvertWhiteout sys hdr p) = False \<and>
      (let dev = Join [Dir p, drop (length whiteoutPrefix) (Base p)] in
       hd (snd (snd (OverlayConvertWhiteout sys hdr p))) = Mknod dev S_IFCHR 0 \<and>
       (sys (Mknod dev S_IFCHR 0) = None \<longrightarrow>
          snd (snd (OverlayConvertWhiteout sys hdr p)) =
            [Mknod dev S_IFCHR 0, Chown dev (Uid hdr) (Gid hdr)]))) \<and>
   (Base p \<noteq> whiteoutOpaqueDir \<and> \<not> HasPrefix (Base p) whiteoutPrefix \<longrightarrow>
      OverlayConvertWhiteout sys hdr p = (True, None, []))"
  by (auto simp: OverlayConvertWhiteout_def Let_def split: option.splits)


theorem OverlayConvertWhiteout_cases_witness:
  "OverlayConvertWhiteout (\<lambda>c. None) \<lparr>Uid = 1000, Gid = 100\<rparr> ''usr/lib/.wh..wh..opq'' =
     (False, None, [Setxattr ''usr/lib'' ''trusted.overlay.opaque'' ''y'' 0]) \<and>
   OverlayConvertWhiteout (\<lambda>c. None) \<lparr>Uid = 1000, Gid = 100\<rparr> ''usr/lib/.wh.foo'' =
     (False, None, [Mknod ''usr/lib/foo'' 8192 0, Chown ''usr/lib/foo'' 1000 100]) \<and>
   OverlayConvertWhiteout (\<lambda>c. None) \<lparr>Uid = 1000, Gid = 100\<rparr> ''usr/lib/foo'' =
     (True, None, [])"
  using OverlayConvertWhiteout_cases [of "''usr/lib/.wh..wh..opq''" "\<lambda>c. None" "\<lparr>Uid = 1000, Gid = 100\<rparr>"]
    OverlayConvertWhiteout_cases [of "''usr/lib/.wh.foo''" "\<lambda>c. None" "\<lparr>Uid = 1000, Gid = 100\<rparr>"]
    OverlayConvertWhiteout_cases [of "''usr/lib/foo''" "\<lambda>c. None" "\<lparr>Uid = 1000, Gid = 100\<rparr>"]
  by (simp add: OverlayConvertWhiteout_def Base_def Dir_def Join_def Clean_def IsAbs_def
      stripTrailingSep_def HasPrefix_def whiteoutPrefix_def whiteoutOpaqueDir_def S_IFCHR_def
      Let_def)

section \<open>Cleanup: properties\<close>

lemma set_orphanDirs:
  "set (orphanDirs ids base ds) = (\<lambda>d. Join [base, d]) ` {d \<in> set ds. d \<notin> dom ids}"
  by (induction ds) auto

lemma orphanDirs_filter:
  "orphanDirs ids base ds = map (\<lambda>d. Join [base, d]) (filter (\<lambda>d. d \<notin> dom ids) ds)"
  by (induction ds) auto

text \<open>
  C7. When \<open>Cleanup\<close> gets its transaction, the id map and the listings of
  \<open>root/snapshots\<close> and \<open>defaultUpperDir/snapshots\<close>, the paths it removes are exactly
  the entries of the two directories whose names are not keys of the id map: an entry
  whose name is a live id is not selected, an entry whose name is not a live id is, and
  nothing else is removed.
\<close>

theorem Cleanup_removes_exactly_orphans:
  assumes "beginTx env = None"
    and "IDMap env = Inr ids"
    and "openDir env (Join [root sn, ''snapshots'']) = None"
    and "openDir env (Join [defaultUpperDir sn, ''snapshots'']) = None"
    and "readdirnames env (Join [root sn, ''snapshots'']) = Inr dirs"
    and "readdirnames env (Join [defaultUpperDir sn, ''snapshots'']) = Inr udirs"
  shows "fst (Cleanup sn env) = None \<and>
    snd (Cleanup sn env) =
      map (\<lambda>d. Join [Join [root sn, ''snapshots''], d]) (filter (\<lambda>d. d \<notin> dom ids) dirs) @
      map (\<lambda>d. Join [Join [defaultUpperDir sn, ''snapshots''], d])
        (filter (\<lambda>d. d \<notin> dom ids) udirs) \<and>
    set (snd (Cleanup sn env)) =
      (\<lambda>d. Join [Join [root sn, ''snapshots''], d]) ` {d \<in> set dirs. d \<notin> dom ids} \<union>
      (\<lambda>d. Join [Join [defaultUpperDir sn, ''snapshots''], d]) ` {d \<in> set udirs. d \<notin> dom ids}"
  using assms
  by (simp add: Cleanup_def cleanupDirectories_def getCleanupDirectories_def Let_def
      orphanDirs_filter [symmetric] set_orphanDirs)


theorem Cleanup_removes_exactly_orphans_witness:
  "Cleanup
     \<lparr>root = ''/r'', asyncRemove = True, upperdirLabel = False, defaultUpperDir = ''/u'',
      indexOff = True, userxattr = False, hasQuotaDriver = True\<rparr>
     \<lparr>beginTx = None, IDMap = Inr [''1'' \<mapsto> ''base'', ''3'' \<mapsto> ''run''],
      openDir = (\<lambda>p. None),
      readdirnames = (\<lambda>p. if p = ''/r/snapshots'' then Inr [''1'', ''2'', ''3'']
                      else Inr [''4'', ''3''])\<rparr>
   = (None, [''/r/snapshots/2'', ''/u/snapshots/4''])"
proof -
  let ?sn = "\<lparr>root = ''/r'', asyncRemove = True, upperdirLabel = False,
      defaultUpperDir = ''/u'', indexOff = True, userxattr = False, hasQuotaDriver = True\<rparr>"
  let ?env = "\<lparr>beginTx = None, IDMap = Inr [''1'' \<mapsto> ''base'', ''3'' \<mapsto> ''run''],
      openDir = (\<lambda>p. None),
      readdirnames = (\<lambda>p. if p = ''/r/snapshots'' then Inr [''1'', ''2'', ''3'']
                      else Inr [''4'', ''3''])\<rparr>"
  have paths: "Join [''/r'', ''snapshots''] = ''/r/snapshots''"
    "Join [''/u'', ''snapshots''] = ''/u/snapshots''"
    "Join [''/r/snapshots'', ''2''] = ''/r/snapshots/2''"
    "Join [''/u/snapshots'', ''4''] = ''/u/snapshots/4''"
    by (simp_all add: Join_def Clean_def IsAbs_def)
  have "fst (Cleanup ?sn ?env) = None \<and>
        snd (Cleanup ?sn ?env) = [''/r/snapshots/2'', ''/u/snapshots/4'']"
    using Cleanup_removes_exactly_orphans [of ?env "[''1'' \<mapsto> ''base'', ''3'' \<mapsto> ''run'']" ?sn
        "[''1'', ''2'', ''3'']" "[''4'', ''3'']"]
    by (simp add: paths)
  then show ?thesis by (simp add: prod_eq_iff)
qed


section \<open>PreProcess: properties\<close>

lemma WriteConfig_cases:
  "WriteConfig env d c p =
     (if atomicWriteFile env p = None then (None, d(p \<mapsto> Regular (Descriptor c)))
      else (Some (Wrap (''failed to commit the overlaybd config on '' @ p) (the (atomicWriteFile env p))), d))"
  by (auto simp: WriteConfig_def split: option.splits)

lemma ReadConfig_Inr:
  "ReadConfig d p = Inr c \<longleftrightarrow> d p = Some (Regular (Descriptor c))"
  by (auto simp: ReadConfig_def split: option.splits content.splits node.splits)

lemma ConstructOverlayBDSpec_failed:
  "fst (ConstructOverlayBDSpec env d parent labels snDir parentDir bd bs) \<noteq> None \<Longrightarrow>
   snd (ConstructOverlayBDSpec env d parent labels snDir parentDir bd bs) = d"
  by (auto simp: ConstructOverlayBDSpec_def WriteConfig_cases Let_def
      split: option.splits sum.splits if_splits)

lemma ConstructOverlayBDSpec_ok_iff:
  "fst (ConstructOverlayBDSpec env d parent labels snDir parentDir bd bs) = None \<longleftrightarrow>
   (\<exists>ref url. labels labelImageRef = Some ref \<and> constructImageBlobURL env ref = Inr url \<and>
      (parent \<noteq> [] \<longrightarrow> (\<exists>c. d (Join [parentDir, configFile]) = Some (Regular (Descriptor c)))) \<and>
      atomicWriteFile env (Join [snDir, configFile]) = None)"
  by (auto simp: ConstructOverlayBDSpec_def WriteConfig_cases Let_def ReadConfig_Inr [symmetric]
      split: option.splits sum.splits if_splits)

lemma ConstructOverlayBDSpec_written:
  "fst (ConstructOverlayBDSpec env d parent labels snDir parentDir bd bs) = None \<Longrightarrow>
   \<exists>c. snd (ConstructOverlayBDSpec env d parent labels snDir parentDir bd bs) =
          d(Join [snDir, configFile] \<mapsto> Regular (Descriptor c)) \<and>
        Lowers c \<noteq> [] \<and>
        last (Lowers c) = LowerConfig0\<lparr>Lower_Digest := bd, Lower_Size := uint64 (Atoi bs),
                             Lower_Dir := snDir\<rparr> \<and>
        Some (ImageRef c) = labels labelImageRef \<and>
        ResultFile c = OverlaybdInitDebuglogPath snDir \<and>
        Upper c = UpperConfig0"
  by (auto simp: ConstructOverlayBDSpec_def WriteConfig_cases Let_def Config0_def
      split: option.splits sum.splits if_splits)

lemma ConstructTurboOCISpec_failed:
  "fst (ConstructTurboOCISpec env d parent labels snDir parentDir bd bs) \<noteq> None \<Longrightarrow>
   snd (ConstructTurboOCISpec env d parent labels snDir parentDir bd bs) = d"
  by (auto simp: ConstructTurboOCISpec_def WriteConfig_cases Let_def
      split: option.splits sum.splits if_splits)

lemma ConstructTurboOCISpec_written:
  "fst (ConstructTurboOCISpec env d parent labels snDir parentDir bd bs) = None \<Longrightarrow>
   \<exists>c. snd (ConstructTurboOCISpec env d parent labels snDir parentDir bd bs) =
          d(Join [snDir, configFile] \<mapsto> Regular (Descriptor c)) \<and>
        Lowers c \<noteq> [] \<and>
        Lower_Dir (last (Lowers c)) = snDir \<and>
        Lower_File (last (Lowers c)) = Join [snDir, ext4FSMetaFile] \<and>
        Lower_TargetDigest (last (Lowers c)) = index labels labelTurboOCIDigest \<and>
        Lower_GzipIndex (last (Lowers c)) =
          (if isGzipLayer (index labels labelTurboOCIMediaType) then Join [snDir, gzipIndexFile]
           else []) \<and>
        Lower_Digest (last (Lowers c)) = [] \<and>
        ResultFile c = OverlaybdInitDebuglogPath snDir"
  by (auto simp: ConstructTurboOCISpec_def WriteConfig_cases Let_def Config0_def LowerConfig0_def
      split: option.splits sum.splits if_splits)

lemma ConstructTurboOCISpec_ok_iff:
  "fst (ConstructTurboOCISpec env d parent labels snDir parentDir bd bs) = None \<longleftrightarrow>
   (if parent \<noteq> [] then (\<exists>c. d (Join [parentDir, configFile]) = Some (Regular (Descriptor c)))
    else (\<exists>ref url. labels labelImageRef = Some ref \<and> constructImageBlobURL env ref = Inr url)) \<and>
   atomicWriteFile env (Join [snDir, configFile]) = None"
  by (auto simp: ConstructTurboOCISpec_def WriteConfig_cases Let_def ReadConfig_Inr [symmetric]
      split: option.splits sum.splits if_splits)


text \<open>
  C1 (amended). Without the blob-digest or the blob-size label, \<open>PreProcess\<close> returns
  \<open>skipFetch = false\<close>, no error, and writes nothing. With both and no turbo label, it
  returns \<open>skipFetch = true\<close> exactly when the plain descriptor was constructed without
  error, and then \<open>config.v1.json\<close> of the layer holds a descriptor whose last lower
  carries the digest, the size and the layer's directory; with both and the turbo label,
  it returns \<open>skipFetch = false\<close>, and when the constructor did not fail the file holds
  a descriptor whose last lower carries the target digest and the ext4 meta file. When
  the constructor fails (no image-ref label, an image reference that does not parse, a
  parent descriptor that cannot be read, a write that fails), the error is returned and
  nothing is written.
\<close>

theorem PreProcess_skipFetch:
  assumes "PreProcess env d keyDir parentDir parent labels = ((skipFetch, err), d')"
  shows "(labels labelKeyOverlayBDBlobSize = None \<or> labels labelKeyOverlayBDBlobDigest = None \<longrightarrow>
            \<not> skipFetch \<and> err = None \<and> d' = d) \<and>
         (labels labelKeyOverlayBDBlobSize \<noteq> None \<and> labels labelKeyOverlayBDBlobDigest \<noteq> None \<and>
          labels labelTurboOCIDigest = None \<longrightarrow>
            (skipFetch \<longleftrightarrow> err = None) \<and>
            (err \<noteq> None \<longrightarrow> d' = d) \<and>
            (err = None \<longrightarrow>
               (\<exists>c. d' = d(Join [keyDir, configFile] \<mapsto> Regular (Descriptor c)) \<and> Lowers c \<noteq> [] \<and>
                  last (Lowers c) =
                    LowerConfig0\<lparr>Lower_Digest := index labels labelKeyOverlayBDBlobDigest,
                      Lower_Size := uint64 (Atoi (index labels labelKeyOverlayBDBlobSize)),
                      Lower_Dir := keyDir\<rparr>))) \<and>
         (labels labelKeyOverlayBDBlobSize \<noteq> None \<and> labels labelKeyOverlayBDBlobDigest \<noteq> None \<and>
          labels labelTurboOCIDigest \<noteq> None \<longrightarrow>
            \<not> skipFetch \<and>
            (err \<noteq> None \<longrightarrow> d' = d) \<and>
            (err = None \<longrightarrow>
               (\<exists>c. d' = d(Join [keyDir, configFile] \<mapsto> Regular (Descriptor c)) \<and> Lowers c \<noteq> [] \<and>
                  Lower_Dir (last (Lowers c)) = keyDir \<and>
                  Lower_File (last (Lowers c)) = Join [keyDir, ext4FSMetaFile] \<and>
                  Lower_TargetDigest (last (Lowers c)) = index labels labelTurboOCIDigest)))"
proof (intro conjI impI)
  assume "labels labelKeyOverlayBDBlobSize = None \<or> labels labelKeyOverlayBDBlobDigest = None"
  with assms show "\<not> skipFetch" "err = None" "d' = d"
    by (auto simp: PreProcess_def split: option.splits)
next
  assume h: "labels labelKeyOverlayBDBlobSize \<noteq> None \<and>
    labels labelKeyOverlayBDBlobDigest \<noteq> None \<and> labels labelTurboOCIDigest = None"
  then obtain bs bd where l: "labels labelKeyOverlayBDBlobSize = Some bs"
    "labels labelKeyOverlayBDBlobDigest = Some bd" "labels labelTurboOCIDigest = None"
    by auto
  let ?r = "ConstructOverlayBDSpec env d parent labels keyDir parentDir bd bs"
  from assms l have r: "err = fst ?r" "d' = snd ?r" "skipFetch = (fst ?r = None)"
    by (auto simp: PreProcess_def split: option.splits prod.splits)
  from r show "skipFetch = (err = None)" by simp
  { assume "err \<noteq> None"
    with r show "d' = d" using ConstructOverlayBDSpec_failed [of env d parent labels keyDir parentDir bd bs]
      by simp }
  { assume "err = None"
    with r l show "\<exists>c. d' = d(Join [keyDir, configFile] \<mapsto> Regular (Descriptor c)) \<and> Lowers c \<noteq> [] \<and>
        last (Lowers c) =
          LowerConfig0\<lparr>Lower_Digest := index labels labelKeyOverlayBDBlobDigest,
            Lower_Size := uint64 (Atoi (index labels labelKeyOverlayBDBlobSize)),
            Lower_Dir := keyDir\<rparr>"
      using ConstructOverlayBDSpec_written [of env d parent labels keyDir parentDir bd bs]
      by (auto simp: index_def) }
next
  assume h: "labels labelKeyOverlayBDBlobSize \<noteq> None \<and>
    labels labelKeyOverlayBDBlobDigest \<noteq> None \<and> labels labelTurboOCIDigest \<noteq> None"
  then obtain bs bd t where l: "labels labelKeyOverlayBDBlobSize = Some bs"
    "labels labelKeyOverlayBDBlobDigest = Some bd" "labels labelTurboOCIDigest = Some t"
    by auto
  let ?r = "ConstructTurboOCISpec env d parent labels keyDir parentDir bd bs"
  from assms l have r: "err = fst ?r" "d' = snd ?r" "\<not> skipFetch"
    by (auto simp: PreProcess_def split: option.splits prod.splits)
  from r show "\<not> skipFetch" by simp
  { assume "err \<noteq> None"
    with r show "d' = d" using ConstructTurboOCISpec_failed [of env d parent labels keyDir parentDir bd bs]
      by simp }
  { assume "err = None"
    with r l show "\<exists>c. d' = d(Join [keyDir, configFile] \<mapsto> Regular (Descriptor c)) \<and> Lowers c \<noteq> [] \<and>
        Lower_Dir (last (Lowers c)) = keyDir \<and>
        Lower_File (last (Lowers c)) = Join [keyDir, ext4FSMetaFile] \<and>
        Lower_TargetDigest (last (Lowers c)) = index labels labelTurboOCIDigest"
      using ConstructTurboOCISpec_written [of env d parent labels keyDir parentDir bd bs]
      by auto }
qed

text \<open>
  C1, as stated, fails: with the blob-digest and blob-size labels present and no turbo
  label, but no \<open>cri.image-ref\<close> label, \<open>PreProcess\<close> returns \<open>skipFetch = false\<close> with the
  error of the constructor, and writes no descriptor.
\<close>

theorem PreProcess_skipFetch_counterexample:
  "PreProcess
     \<lparr>referenceParse = (\<lambda>r. Inr (''registry.example.com'', ''registry.example.com/app'')),
      atomicWriteFile = (\<lambda>p. None)\<rparr>
     Map.empty ''/r/snapshots/7'' [] []
     [labelKeyOverlayBDBlobSize \<mapsto> ''1048576'', labelKeyOverlayBDBlobDigest \<mapsto> ''sha256:ab'']
   = ((False, Some (Msg ''no image-ref label'')), Map.empty)"
  by (simp add: PreProcess_def ConstructOverlayBDSpec_def labelKeyOverlayBDBlobSize_def
      labelKeyOverlayBDBlobDigest_def labelTurboOCIDigest_def labelImageRef_def)



theorem PreProcess_skipFetch_witness:
  "fst (PreProcess
     \<lparr>referenceParse = (\<lambda>r. Inr (''registry.example.com'', ''registry.example.com/app'')),
      atomicWriteFile = (\<lambda>p. None)\<rparr>
     Map.empty ''/r/snapshots/7'' [] []
     [labelKeyOverlayBDBlobSize \<mapsto> ''1048576'', labelKeyOverlayBDBlobDigest \<mapsto> ''sha256:ab'',
      labelImageRef \<mapsto> ''registry.example.com/app:v1'']) = (True, None) \<and>
   (\<exists>c. snd (PreProcess
     \<lparr>referenceParse = (\<lambda>r. Inr (''registry.example.com'', ''registry.example.com/app'')),
      atomicWriteFile = (\<lambda>p. None)\<rparr>
     Map.empty ''/r/snapshots/7'' [] []
     [labelKeyOverlayBDBlobSize \<mapsto> ''1048576'', labelKeyOverlayBDBlobDigest \<mapsto> ''sha256:ab'',
      labelImageRef \<mapsto> ''registry.example.com/app:v1''])
       = [''/r/snapshots/7/config.v1.json'' \<mapsto> Regular (Descriptor c)] \<and>
      Lower_Digest (last (Lowers c)) = ''sha256:ab'' \<and>
      Lower_Size (last (Lowers c)) = 1048576 \<and>
      Lower_Dir (last (Lowers c)) = ''/r/snapshots/7'') \<and>
   fst (PreProcess
     \<lparr>referenceParse = (\<lambda>r. Inr (''registry.example.com'', ''registry.example.com/app'')),
      atomicWriteFile = (\<lambda>p. None)\<rparr>
     Map.empty ''/r/snapshots/7'' [] []
     [labelKeyOverlayBDBlobSize \<mapsto> ''1048576'', labelKeyOverlayBDBlobDigest \<mapsto> ''sha256:ab'',
      labelImageRef \<mapsto> ''registry.example.com/app:v1'',
      labelTurboOCIDigest \<mapsto> ''sha256:cd'']) = (False, None) \<and>
   (\<exists>c. snd (PreProcess
     \<lparr>referenceParse = (\<lambda>r. Inr (''registry.example.com'', ''registry.example.com/app'')),
      atomicWriteFile = (\<lambda>p. None)\<rparr>
     Map.empty ''/r/snapshots/7'' [] []
     [labelKeyOverlayBDBlobSize \<mapsto> ''1048576'', labelKeyOverlayBDBlobDigest \<mapsto> ''sha256:ab'',
      labelImageRef \<mapsto> ''registry.example.com/app:v1'',
      labelTurboOCIDigest \<mapsto> ''sha256:cd''])
       = [''/r/snapshots/7/config.v1.json'' \<mapsto> Regular (Descriptor c)] \<and>
      Lower_TargetDigest (last (Lowers c)) = ''sha256:cd'' \<and>
      Lower_File (last (Lowers c)) = ''/r/snapshots/7/ext4.fs.meta'') \<and>
   PreProcess
     \<lparr>referenceParse = (\<lambda>r. Inr (''registry.example.com'', ''registry.example.com/app'')),
      atomicWriteFile = (\<lambda>p. None)\<rparr>
     Map.empty ''/r/snapshots/7'' [] []
     [labelKeyOverlayBDBlobDigest \<mapsto> ''sha256:ab'',
      labelImageRef \<mapsto> ''registry.example.com/app:v1'']
     = ((False, None), Map.empty)"
proof -
  let ?env = "\<lparr>referenceParse = (\<lambda>r. Inr (''registry.example.com'', ''registry.example.com/app'')),
      atomicWriteFile = (\<lambda>p. None)\<rparr>"
  let ?L1 = "[labelKeyOverlayBDBlobSize \<mapsto> ''1048576'',
      labelKeyOverlayBDBlobDigest \<mapsto> ''sha256:ab'',
      labelImageRef \<mapsto> ''registry.example.com/app:v1'']"
  let ?L2 = "[labelKeyOverlayBDBlobSize \<mapsto> ''1048576'',
      labelKeyOverlayBDBlobDigest \<mapsto> ''sha256:ab'',
      labelImageRef \<mapsto> ''registry.example.com/app:v1'',
      labelTurboOCIDigest \<mapsto> ''sha256:cd'']"
  let ?L3 = "[labelKeyOverlayBDBlobDigest \<mapsto> ''sha256:ab'',
      labelImageRef \<mapsto> ''registry.example.com/app:v1'']"
  let ?r1 = "PreProcess ?env Map.empty ''/r/snapshots/7'' [] [] ?L1"
  let ?r2 = "PreProcess ?env Map.empty ''/r/snapshots/7'' [] [] ?L2"
  let ?r3 = "PreProcess ?env Map.empty ''/r/snapshots/7'' [] [] ?L3"
  note keys = labelKeyOverlayBDBlobSize_def labelKeyOverlayBDBlobDigest_def
    labelTurboOCIDigest_def labelImageRef_def labelTurboOCIMediaType_def
  have paths: "Join [''/r/snapshots/7'', configFile] = ''/r/snapshots/7/config.v1.json''"
    "Join [''/r/snapshots/7'', ext4FSMetaFile] = ''/r/snapshots/7/ext4.fs.meta''"
    by (simp_all add: Join_def Clean_def IsAbs_def configFile_def ext4FSMetaFile_def)
  have size: "uint64 (Atoi ''1048576'') = 1048576"
    by (simp add: Atoi_def isDigit_def decimal_def digitVal_def uint64_def)
  have e1: "snd (fst ?r1) = None"
    by (simp add: PreProcess_def ConstructOverlayBDSpec_def constructImageBlobURL_def
        WriteConfig_def Let_def keys)
  have e2: "snd (fst ?r2) = None"
    by (simp add: PreProcess_def ConstructTurboOCISpec_def constructImageBlobURL_def
        WriteConfig_def Let_def keys)
  have t1: "fst (fst ?r1) \<and>
    (\<exists>c. snd ?r1 = [''/r/snapshots/7/config.v1.json'' \<mapsto> Regular (Descriptor c)] \<and> Lowers c \<noteq> [] \<and>
       last (Lowers c) = LowerConfig0\<lparr>Lower_Digest := ''sha256:ab'', Lower_Size := 1048576,
         Lower_Dir := ''/r/snapshots/7''\<rparr>)"
    using PreProcess_skipFetch [of ?env Map.empty "''/r/snapshots/7''" "[]" "[]" ?L1
        "fst (fst ?r1)" "snd (fst ?r1)" "snd ?r1"] e1
    by (simp add: keys paths size index_def)
  have t2: "\<not> fst (fst ?r2) \<and>
    (\<exists>c. snd ?r2 = [''/r/snapshots/7/config.v1.json'' \<mapsto> Regular (Descriptor c)] \<and> Lowers c \<noteq> [] \<and>
       Lower_Dir (last (Lowers c)) = ''/r/snapshots/7'' \<and>
       Lower_File (last (Lowers c)) = ''/r/snapshots/7/ext4.fs.meta'' \<and>
       Lower_TargetDigest (last (Lowers c)) = ''sha256:cd'')"
    using PreProcess_skipFetch [of ?env Map.empty "''/r/snapshots/7''" "[]" "[]" ?L2
        "fst (fst ?r2)" "snd (fst ?r2)" "snd ?r2"] e2
    by (simp add: keys paths index_def)
  have t3: "\<not> fst (fst ?r3) \<and> snd (fst ?r3) = None \<and> snd ?r3 = Map.empty"
    using PreProcess_skipFetch [of ?env Map.empty "''/r/snapshots/7''" "[]" "[]" ?L3
        "fst (fst ?r3)" "snd (fst ?r3)" "snd ?r3"]
    by (simp add: keys)
  from t1 e1 have c1: "fst ?r1 = (True, None)" by (simp add: prod_eq_iff)
  from t2 e2 have c2: "fst ?r2 = (False, None)" by (simp add: prod_eq_iff)
  from t3 have c3: "?r3 = ((False, None), Map.empty)" by (simp add: prod_eq_iff)
  from t1 have d1: "\<exists>c. snd ?r1 = [''/r/snapshots/7/config.v1.json'' \<mapsto> Regular (Descriptor c)] \<and>
      Lower_Digest (last (Lowers c)) = ''sha256:ab'' \<and>
      Lower_Size (last (Lowers c)) = 1048576 \<and>
      Lower_Dir (last (Lowers c)) = ''/r/snapshots/7''"
    by (auto simp: LowerConfig0_def)
  from t2 have d2: "\<exists>c. snd ?r2 = [''/r/snapshots/7/config.v1.json'' \<mapsto> Regular (Descriptor c)] \<and>
      Lower_TargetDigest (last (Lowers c)) = ''sha256:cd'' \<and>
      Lower_File (last (Lowers c)) = ''/r/snapshots/7/ext4.fs.meta''"
    by auto
  from c1 d1 c2 d2 c3 show ?thesis by blast
qed

section \<open>The readiness wait: properties\<close>

lemma readyLoop_fails:
  "\<forall>j<n. isl (readLog env (retry + j)) \<Longrightarrow>
   readyLoop env tp n retry err m =
     (Inr (if n = 0 then err else Some (projl (readLog env (retry + n - 1)))),
      Sleep (20000 * n) m)"
proof (induction n arbitrary: retry err m)
  case 0
  then show ?case by (simp add: Sleep_def)
next
  case (Suc n)
  from Suc.prems have h0: "isl (readLog env retry)" by force
  then obtain derr where d: "readLog env retry = Inl derr" by (cases "readLog env retry") auto
  from Suc.prems have "\<forall>j<n. isl (readLog env (Suc retry + j))"
    by (metis Suc_less_eq add_Suc_shift)
  from Suc.IH [OF this] d show ?case
    by (cases n) (auto simp: Sleep_def)
qed

lemma readyLoop_first_content:
  "\<forall>j<i. isl (readLog env (retry + j)) \<Longrightarrow> i < n \<Longrightarrow> readLog env (retry + i) = Inr data \<Longrightarrow>
   readyLoop env tp n retry err m =
     (if data = ''success'' then Inr None
      else Inl (Msg (''failed to enable target for '' @ tp @ '': '' @ data)),
      Sleep (20000 * i) m)"
proof (induction i arbitrary: n retry err m)
  case 0
  then obtain n' where "n = Suc n'" by (cases n) auto
  with 0 show ?case by (simp add: Sleep_def)
next
  case (Suc i)
  then obtain n' where n: "n = Suc n'" "i < n'" by (cases n) auto
  from Suc.prems have "isl (readLog env retry)" by force
  then obtain derr where d: "readLog env retry = Inl derr" by (cases "readLog env retry") auto
  from Suc.prems have a: "\<forall>j<i. isl (readLog env (Suc retry + j))"
    by (metis Suc_less_eq add_Suc_shift)
  from Suc.prems have b: "readLog env (Suc retry + i) = Inr data" by simp
  from Suc.IH [OF a n(2) b] d n show ?case
    by (auto simp: Sleep_def)
qed

lemma retryTimes_eq: "retryTimes = 1000"
  by (simp add: retryTimes_def timeout_def)


lemma afterEnable_not_ready:
  assumes "writeFile env (Join [overlaybdTargetPath snID, ''attrib'', ''cmd_time_out''])
             (showNat (2147483647 div 1000)) = None"
    and "\<forall>j<i. isl (readLog env j)" and "i < retryTimes" and "readLog env i = Inr data"
    and "data \<noteq> ''success''"
  shows "fst (afterEnable env snDir snID None m) =
    Failed (Msg (''failed to enable target for '' @ overlaybdTargetPath snID @ '': '' @ data))"
  using assms readyLoop_first_content [of i env 0 retryTimes data "overlaybdTargetPath snID"
      "Some (Msg ''timeout'')"]
  by (simp add: afterEnable_def WriteFile_def Let_def)

text \<open>
  C4 (amended). The debug log is read at most 1000 times (\<open>timeout * 1000 / 20\<close>), and
  the driver sleeps 20 ms after each read that fails, 20 s in all. The wait ends at the
  first read that returns a content: with no error when the content is \<open>success\<close>, and
  with the error that carries the content, as it is, for every other content, the empty
  one included. When all 1000 reads fail, the wait ends with the error of the last read.
\<close>

theorem readyLoop_polls:
  "retryTimes = 1000 \<and>
   (\<forall>i data. (\<forall>j<i. isl (readLog env j)) \<and> i < retryTimes \<and> readLog env i = Inr data \<longrightarrow>
      readyLoop env tp retryTimes 0 (Some (Msg ''timeout'')) m =
        (if data = ''success'' then Inr None
         else Inl (Msg (''failed to enable target for '' @ tp @ '': '' @ data)),
         Sleep (20000 * i) m)) \<and>
   ((\<forall>j<retryTimes. isl (readLog env j)) \<longrightarrow>
      readyLoop env tp retryTimes 0 (Some (Msg ''timeout'')) m =
        (Inr (Some (projl (readLog env 999))), Sleep 20000000 m))"
proof (intro conjI allI impI)
  show "retryTimes = 1000" by (rule retryTimes_eq)
next
  fix i data
  assume h: "(\<forall>j<i. isl (readLog env j)) \<and> i < retryTimes \<and> readLog env i = Inr data"
  then show "readyLoop env tp retryTimes 0 (Some (Msg ''timeout'')) m =
        (if data = ''success'' then Inr None
         else Inl (Msg (''failed to enable target for '' @ tp @ '': '' @ data)),
         Sleep (20000 * i) m)"
    using readyLoop_first_content [of i env 0 retryTimes data tp "Some (Msg ''timeout'')" m]
    by simp
next
  assume "\<forall>j<retryTimes. isl (readLog env j)"
  then show "readyLoop env tp retryTimes 0 (Some (Msg ''timeout'')) m =
        (Inr (Some (projl (readLog env 999))), Sleep 20000000 m)"
    using readyLoop_fails [of retryTimes env 0 tp "Some (Msg ''timeout'')" m]
    by (simp add: retryTimes_eq)
qed

theorem readyLoop_polls_witness:
  "readyLoop (quietEnv\<lparr>readLog := (\<lambda>i. if i < 3 then Inl (Sys ENOENT) else Inr ''success'')\<rparr>)
     ''/t'' retryTimes 0 (Some (Msg ''timeout'')) machine0
     = (Inr None, machine0\<lparr>slept := 60000\<rparr>) \<and>
   readyLoop (quietEnv\<lparr>readLog := (\<lambda>i. if i < 3 then Inl (Sys ENOENT) else Inr ''bad'')\<rparr>)
     ''/t'' retryTimes 0 (Some (Msg ''timeout'')) machine0
     = (Inl (Msg ''failed to enable target for /t: bad''), machine0\<lparr>slept := 60000\<rparr>) \<and>
   readyLoop (quietEnv\<lparr>readLog := (\<lambda>i. Inl (Sys ENOENT))\<rparr>)
     ''/t'' retryTimes 0 (Some (Msg ''timeout'')) machine0
     = (Inr (Some (Sys ENOENT)), machine0\<lparr>slept := 20000000\<rparr>)"
proof -
  let ?e1 = "quietEnv\<lparr>readLog := (\<lambda>i. if i < 3 then Inl (Sys ENOENT) else Inr ''success'')\<rparr>"
  let ?e2 = "quietEnv\<lparr>readLog := (\<lambda>i. if i < 3 then Inl (Sys ENOENT) else Inr ''bad'')\<rparr>"
  let ?e3 = "quietEnv\<lparr>readLog := (\<lambda>i. Inl (Sys ENOENT))\<rparr>"
  have a: "readyLoop ?e1 ''/t'' retryTimes 0 (Some (Msg ''timeout'')) machine0
     = (Inr None, machine0\<lparr>slept := 60000\<rparr>)"
    using readyLoop_polls [of ?e1 "''/t''" machine0, THEN conjunct2, THEN conjunct1,
        THEN spec, THEN spec, of 3 "''success''"]
    by (simp add: retryTimes_eq Sleep_def machine0_def)
  have b: "readyLoop ?e2 ''/t'' retryTimes 0 (Some (Msg ''timeout'')) machine0
     = (Inl (Msg ''failed to enable target for /t: bad''), machine0\<lparr>slept := 60000\<rparr>)"
    using readyLoop_polls [of ?e2 "''/t''" machine0, THEN conjunct2, THEN conjunct1,
        THEN spec, THEN spec, of 3 "''bad''"]
    by (simp add: retryTimes_eq Sleep_def machine0_def)
  have c: "readyLoop ?e3 ''/t'' retryTimes 0 (Some (Msg ''timeout'')) machine0
     = (Inr (Some (Sys ENOENT)), machine0\<lparr>slept := 20000000\<rparr>)"
    using readyLoop_polls [of ?e3 "''/t''" machine0, THEN conjunct2, THEN conjunct2]
    by (simp add: retryTimes_eq Sleep_def machine0_def)
  from a b c show ?thesis by simp
qed

text \<open>
  C4, as stated, fails: an empty debug log is not read again. With a first read that
  returns the empty content and a log that would hold \<open>success\<close> from the second read
  on, the wait ends at once, without a sleep, with the fatal error.
\<close>

theorem readyLoop_empty_counterexample:
  "readyLoop (quietEnv\<lparr>readLog := (\<lambda>i. if i = 0 then Inr [] else Inr ''success'')\<rparr>)
     ''/t'' retryTimes 0 (Some (Msg ''timeout'')) machine0
     = (Inl (Msg ''failed to enable target for /t: ''), machine0)"
  using readyLoop_first_content [of 0
      "quietEnv\<lparr>readLog := (\<lambda>i. if i = 0 then Inr [] else Inr ''success'')\<rparr>" 0 retryTimes "[]"
      "''/t''" "Some (Msg ''timeout'')" machine0]
  by (simp add: retryTimes_eq Sleep_def machine0_def)

section \<open>The driver: evaluation of the derived names\<close>

lemma showNat_199: "showNat 199 = ''199''"
  by (simp add: showNat.simps)

lemma showNat_hba: "showNat 999999999 = ''999999999''"
  by (simp add: showNat.simps)

lemma showNat_4: "showNat 4 = ''4''"
  by (simp add: showNat.simps)

lemma showNat_cmd: "showNat (2147483647 div 1000) = ''2147483''"
  by (simp add: showNat.simps)

lemma replicate_10: "replicate 10 c = [c, c, c, c, c, c, c, c, c, c]"
  by (simp add: numeral_eq_Suc)

lemma id128: "overlaybdLoopbackDeviceID ''128'' = Some ''naa.1990000000000128''"
  by (simp add: overlaybdLoopbackDeviceID_def obdLoopNaaPrefix_def showNat_199 replicate_10)

lemma tp128: "overlaybdTargetPath ''128'' = ''/sys/kernel/config/target/core/user_999999999/dev_128''"
  by (simp add: overlaybdTargetPath_def obdHbaNum_def showNat_hba)


section \<open>ActiveMount: the merge converter\<close>

lemma convertedLoop_all:
  "\<forall>p\<in>set ps. stat env (Join [p, tmpTarIndex]) = None \<Longrightarrow>
   convertedLoop env ps = (True, map (\<lambda>p. Join [p, tmpTarIndex]) ps)"
  by (induction ps) auto

lemma metaArgs_rev:
  "metaArgs ps args = concat (map (\<lambda>p. [''--meta'', p]) (rev ps)) @ args"
  by (induction ps arbitrary: args) auto

text \<open>Only \<open>Exec\<close> adds to the commands run.\<close>

lemma execs_Sleep [simp]: "execs (Sleep us m) = execs m"
  by (simp add: Sleep_def)

lemma execs_MkdirAll [simp]: "execs (snd (MkdirAll env p m)) = execs m"
  by (simp add: MkdirAll_def split: option.splits)

lemma execs_RemoveAll [simp]: "execs (snd (RemoveAll env p m)) = execs m"
  by (simp add: RemoveAll_def split: option.splits)

lemma execs_WriteFile [simp]: "execs (snd (WriteFile env p b m)) = execs m"
  by (simp add: WriteFile_def split: option.splits)

lemma execs_Symlink [simp]: "execs (snd (Symlink env p q m)) = execs m"
  by (simp add: Symlink_def split: option.splits)

lemma execs_killWait [simp]: "execs (snd (killWait env sid n i m)) = execs m"
  by (induction n arbitrary: i m) (auto simp: Let_def)

lemma execs_killProcess [simp]: "execs (snd (killProcess env sid sig m)) = execs m"
  by (simp add: killProcess_def Let_def)

lemma execs_enableLoop [simp]: "execs (snd (enableLoop env tp n retry err m)) = execs m"
  by (induction n arbitrary: retry err m) (auto split: option.splits error.splits errno.splits)

lemma execs_readyLoop [simp]: "execs (snd (readyLoop env tp n retry err m)) = execs m"
  by (induction n arbitrary: retry err m) (auto split: sum.splits)

lemma execs_probeLoop [simp]: "execs (snd (probeLoop env dn n retry err m)) = execs m"
  by (induction n arbitrary: retry err m) (auto split: sum.splits list.splits)

lemma execs_deferTarget [simp]: "execs (deferTarget env p m) = execs m"
  by (simp add: deferTarget_def)

lemma execs_deferKill [simp]: "execs (deferKill env sid m) = execs m"
  by (simp add: deferKill_def)

lemma execs_deferLoopback [simp]: "execs (deferLoopback env a b c m) = execs m"
  by (simp add: deferLoopback_def)

lemma execs_deferLink [simp]: "execs (deferLink env p m) = execs m"
  by (simp add: deferLink_def)

lemma execs_afterLink [simp]: "execs (snd (afterLink env snID tpgt m)) = execs m"
  by (simp add: afterLink_def Let_def split_beta split: sum.splits option.splits)

lemma execs_afterLun [simp]:
  "execs (snd (afterLun env snID targetPath loopDevID tpgtPath lunPath m)) = execs m"
  by (simp add: afterLun_def Let_def split_beta split: option.splits attach_result.splits)

lemma execs_afterEnable [simp]: "execs (snd (afterEnable env snDir snID err m)) = execs m"
  by (simp add: afterEnable_def Let_def split_beta
      split: option.splits attach_result.splits sum.splits)

lemma execs_afterTarget [simp]: "execs (snd (afterTarget env snDir snID m)) = execs m"
  by (simp add: afterTarget_def Let_def split_beta
      split: option.splits attach_result.splits sum.splits)

lemma execs_doOverlayBD [simp]: "execs (snd (doOverlayBD env snDir snID m)) = execs m"
  by (simp add: doOverlayBD_def Let_def split_beta split: option.splits attach_result.splits)

lemma execs_Exec [simp]: "execs (snd (Exec env c args m)) = execs m @ [(c, args)]"
  by (simp add: Exec_def)

lemma fst_Exec [simp]: "fst (Exec env c args m) = exec env c args"
  by (simp add: Exec_def)

lemma execs_overlaybdCreate:
  "\<exists>c. execs (snd (overlaybdCreate env snDir m)) = execs m @ [c]"
  by (simp add: overlaybdCreate_def Let_def split_beta split: option.splits)


lemma execs_ActiveMount_tail:
  "execs (snd (case overlaybdCreate env snDir m1 of
        (Some err, m2) \<Rightarrow> (Err (Wrap ''overlaybd-create failed'' err), m2)
      | (None, m2) \<Rightarrow>
          (case ConstructOverlayBDWritableSpec (cfg env) (tree m2) snDir parentDir of
             (Some err, t) \<Rightarrow>
               (Err (Wrap ''construct overlaybd writable spec failed'' err), m2\<lparr>tree := t\<rparr>)
           | (None, t) \<Rightarrow>
               (case doOverlayBD env snDir sid (m2\<lparr>tree := t\<rparr>) of
                  (Failed err, m3) \<Rightarrow>
                    (Err (Wrap ''construct overlaybd debug log path failed'' err), m3)
                | (Panicked msg, m3) \<Rightarrow> (Panic msg, m3)
                | (Device dev, m3) \<Rightarrow>
                    (case WriteFile env (Join [snDir, lowerFile]) dev m3 of
                       (Some err, m4) \<Rightarrow> (Err err, m4)
                     | (None, m4) \<Rightarrow>
                         (Ok [\<lparr>Type = ''ext4'', Source = dev, Options = [''ro'']\<rparr>], m4))))))
   = execs (snd (overlaybdCreate env snDir m1))"
  by (simp add: split_beta split: option.splits attach_result.splits)

text \<open>
  C5 (amended). When the directory of every parent holds a \<open>layer.tar.meta\<close>, the first
  command \<open>ActiveMount\<close> runs is the merge converter, with one pair
  \<open>--meta parent/layer.tar.meta\<close> for each parent, the parents in the reverse of the order
  in which \<open>ActiveMount\<close> received them (the last parent of the list first), followed by
  \<open>--workdir\<close> and the directory \<open>tmp\<close> of the new layer; and when the converter fails,
  \<open>ActiveMount\<close> fails with its error, having run nothing else.
\<close>

theorem ActiveMount_merge_args:
  assumes "\<forall>p\<in>set parentPaths. stat env (Join [p, tmpTarIndex]) = None"
  shows "(\<exists>rest. execs (snd (ActiveMount env snDir sid parentDir parentPaths m)) =
            execs m @
            (ConverterMergeBinary,
             concat (map (\<lambda>p. [''--meta'', Join [p, tmpTarIndex]]) (rev parentPaths)) @
             [''--workdir'', Join [snDir, ''tmp'']]) # rest) \<and>
         (\<forall>e. exec env ConverterMergeBinary
                (concat (map (\<lambda>p. [''--meta'', Join [p, tmpTarIndex]]) (rev parentPaths)) @
                 [''--workdir'', Join [snDir, ''tmp'']]) = Some e \<longrightarrow>
              ActiveMount env snDir sid parentDir parentPaths m =
                (Err (Wrap ''failed to merge image file'' e),
                 m\<lparr>execs := execs m @
                    [(ConverterMergeBinary,
                      concat (map (\<lambda>p. [''--meta'', Join [p, tmpTarIndex]]) (rev parentPaths)) @
                      [''--workdir'', Join [snDir, ''tmp'']])]\<rparr>))"
proof -
  let ?args = "concat (map (\<lambda>p. [''--meta'', Join [p, tmpTarIndex]]) (rev parentPaths)) @
    [''--workdir'', Join [snDir, ''tmp'']]"
  have args: "metaArgs (map (\<lambda>p. Join [p, tmpTarIndex]) parentPaths)
      [''--workdir'', Join [snDir, ''tmp'']] = ?args"
    by (simp add: metaArgs_rev rev_map o_def)
  have loop: "convertedLoop env parentPaths = (True, map (\<lambda>p. Join [p, tmpTarIndex]) parentPaths)"
    using assms by (rule convertedLoop_all)
  show ?thesis
  proof (cases "exec env ConverterMergeBinary ?args")
    case (Some e)
    with loop args show ?thesis
      by (simp add: ActiveMount_def Exec_def)
  next
    case None
    let ?m1 = "m\<lparr>execs := execs m @ [(ConverterMergeBinary, ?args)]\<rparr>"
    obtain c where c: "execs (snd (overlaybdCreate env snDir ?m1)) = execs ?m1 @ [c]"
      using execs_overlaybdCreate by blast
    from None loop args have
      "execs (snd (ActiveMount env snDir sid parentDir parentPaths m)) =
       execs (snd (overlaybdCreate env snDir ?m1))"
      by (simp add: ActiveMount_def Exec_def execs_ActiveMount_tail)
    with c None show ?thesis by simp
  qed
qed

theorem ActiveMount_merge_args_witness:
  "ActiveMount
     (quietEnv\<lparr>exec := (\<lambda>c args. if c = ConverterMergeBinary then Some (Msg ''exit status 1'')
                          else None)\<rparr>)
     ''/u/snapshots/4'' ''4'' ''/r/snapshots/3''
     [''/r/snapshots/3'', ''/r/snapshots/2'', ''/r/snapshots/1''] machine0
   = (Err (Wrap ''failed to merge image file'' (Msg ''exit status 1'')),
      machine0\<lparr>execs :=
        [(''/opt/overlaybd/convert/bin/overlaybd-convert-acs'',
          [''--meta'', ''/r/snapshots/1/layer.tar.meta'',
           ''--meta'', ''/r/snapshots/2/layer.tar.meta'',
           ''--meta'', ''/r/snapshots/3/layer.tar.meta'',
           ''--workdir'', ''/u/snapshots/4/tmp''])]\<rparr>)"
proof -
  let ?env = "quietEnv\<lparr>exec := (\<lambda>c args. if c = ConverterMergeBinary
      then Some (Msg ''exit status 1'') else None)\<rparr>"
  have paths: "Join [''/r/snapshots/3'', tmpTarIndex] = ''/r/snapshots/3/layer.tar.meta''"
    "Join [''/r/snapshots/2'', tmpTarIndex] = ''/r/snapshots/2/layer.tar.meta''"
    "Join [''/r/snapshots/1'', tmpTarIndex] = ''/r/snapshots/1/layer.tar.meta''"
    "Join [''/u/snapshots/4'', ''tmp''] = ''/u/snapshots/4/tmp''"
    by (simp_all add: Join_def Clean_def IsAbs_def tmpTarIndex_def)
  have st: "\<forall>p\<in>set [''/r/snapshots/3'', ''/r/snapshots/2'', ''/r/snapshots/1''].
      stat ?env (Join [p, tmpTarIndex]) = None"
    by (simp add: quietEnv_def)
  from ActiveMount_merge_args [OF st, of "''/u/snapshots/4''" "''4''" "''/r/snapshots/3''" machine0]
  show ?thesis
    by (simp add: paths machine0_def ConverterMergeBinary_def)
qed

text \<open>
  C5, as stated, fails: the parents do not come in the order of the chain
  \<open>ActiveMount\<close> is given. Given the parent \<open>2\<close> before the parent \<open>1\<close>, the converter
  gets the meta file of \<open>1\<close> before that of \<open>2\<close>.
\<close>

theorem ActiveMount_order_counterexample:
  "execs (snd (ActiveMount
     (quietEnv\<lparr>exec := (\<lambda>c args. if c = ConverterMergeBinary then Some (Msg ''exit status 1'')
                          else None)\<rparr>)
     ''/u/snapshots/3'' ''3'' ''/r/snapshots/2''
     [''/r/snapshots/2'', ''/r/snapshots/1''] machine0))
   = [(ConverterMergeBinary,
       [''--meta'', ''/r/snapshots/1/layer.tar.meta'',
        ''--meta'', ''/r/snapshots/2/layer.tar.meta'',
        ''--workdir'', ''/u/snapshots/3/tmp''])] \<and>
   execs (snd (ActiveMount
     (quietEnv\<lparr>exec := (\<lambda>c args. if c = ConverterMergeBinary then Some (Msg ''exit status 1'')
                          else None)\<rparr>)
     ''/u/snapshots/3'' ''3'' ''/r/snapshots/2''
     [''/r/snapshots/2'', ''/r/snapshots/1''] machine0))
   \<noteq> [(ConverterMergeBinary,
       [''--meta'', ''/r/snapshots/2/layer.tar.meta'',
        ''--meta'', ''/r/snapshots/1/layer.tar.meta'',
        ''--workdir'', ''/u/snapshots/3/tmp''])]"
proof -
  have paths: "Join [''/r/snapshots/2'', tmpTarIndex] = ''/r/snapshots/2/layer.tar.meta''"
    "Join [''/r/snapshots/1'', tmpTarIndex] = ''/r/snapshots/1/layer.tar.meta''"
    "Join [''/u/snapshots/3'', ''tmp''] = ''/u/snapshots/3/tmp''"
    by (simp_all add: Join_def Clean_def IsAbs_def tmpTarIndex_def)
  show ?thesis
    by (simp add: ActiveMount_def Exec_def paths quietEnv_def machine0_def)
qed

section \<open>The attach: what a failure leaves behind\<close>

lemma enableLoop_now:
  "writeEnable env retry = None \<Longrightarrow> 0 < n \<Longrightarrow>
   enableLoop env tp n retry err m =
     (Inr None, m\<lparr>tree := (tree m)(Join [tp, ''enable''] \<mapsto> Regular (Bytes ''1''))\<rparr>)"
  by (cases n) auto

lemma readyLoop_now:
  "readLog env 0 = Inr ''success'' \<Longrightarrow>
   readyLoop env tp retryTimes 0 err m = (Inr None, m)"
  using readyLoop_first_content [of 0 env 0 retryTimes "''success''" tp err m]
  by (simp add: retryTimes_eq Sleep_def)

lemma killWait_now:
  "0 < n \<Longrightarrow> AtoiOk (Trim (psCount env sid i)) \<Longrightarrow> Atoi (Trim (psCount env sid i)) = 0 \<Longrightarrow>
   killWait env sid n i m = (None, m)"
  by (cases n) (auto simp: Let_def)

lemma lun128:
  "overlaybdLoopbackDeviceLunPath ''naa.1990000000000128'' =
     ''/sys/kernel/config/target/loopback/naa.1990000000000128/tpgt_1/lun/lun_0''"
  "overlaybdLoopbackDevicePath ''naa.1990000000000128'' =
     ''/sys/kernel/config/target/loopback/naa.1990000000000128''"
  by (simp_all add: overlaybdLoopbackDeviceLunPath_def overlaybdLoopbackDevicePath_def)

lemma fst_MkdirAll [simp]: "fst (MkdirAll env p m) = mkdirAll env p"
  by (simp add: MkdirAll_def split: option.splits)

lemma fst_RemoveAll [simp]: "fst (RemoveAll env p m) = removeAll env p"
  by (simp add: RemoveAll_def split: option.splits)

lemma fst_WriteFile [simp]: "fst (WriteFile env p b m) = writeFile env p b"
  by (simp add: WriteFile_def split: option.splits)

lemma fst_Symlink [simp]: "fst (Symlink env p q m) = symlink env p q"
  by (simp add: Symlink_def split: option.splits)

lemma snd_MkdirAll_failed [simp]: "mkdirAll env p = Some e \<Longrightarrow> snd (MkdirAll env p m) = m"
  by (simp add: MkdirAll_def)

lemma snd_RemoveAll_failed [simp]: "removeAll env p = Some e \<Longrightarrow> snd (RemoveAll env p m) = m"
  by (simp add: RemoveAll_def)

lemma snd_WriteFile_failed [simp]:
  "writeFile env p b = Some e \<Longrightarrow> snd (WriteFile env p b m) = m"
  by (simp add: WriteFile_def)

lemma snd_Symlink_failed [simp]:
  "symlink env p q = Some e \<Longrightarrow> snd (Symlink env p q m) = m"
  by (simp add: Symlink_def)

lemma paths128:
  "Join [''/sys/kernel/config/target/core/user_999999999/dev_128'', ''control''] =
     ''/sys/kernel/config/target/core/user_999999999/dev_128/control''"
  "Join [''/sys/kernel/config/target/core/user_999999999/dev_128'', ''enable''] =
     ''/sys/kernel/config/target/core/user_999999999/dev_128/enable''"
  "Join [''/sys/kernel/config/target/core/user_999999999/dev_128'', ''attrib'', ''cmd_time_out''] =
     ''/sys/kernel/config/target/core/user_999999999/dev_128/attrib/cmd_time_out''"
  "Join [''/sys/kernel/config/target/loopback/naa.1990000000000128'', ''tpgt_1''] =
     ''/sys/kernel/config/target/loopback/naa.1990000000000128/tpgt_1''"
  "Join [''/u/snapshots/128'', ''init-debug.log''] = ''/u/snapshots/128/init-debug.log''"
  "Join [''/u/snapshots/128'', ''config.v1.json''] = ''/u/snapshots/128/config.v1.json''"
  by (simp_all add: Join_def Clean_def IsAbs_def)

lemma showNat_2147483: "showNat 2147483 = ''2147483''"
  by (simp add: showNat.simps)

text \<open>
  C3 does not hold of the code. The deferred function that removes the loopback node
  is registered after the second \<open>MkdirAll\<close>, so when the loopback directory is made and
  the making of its lun directory fails, the attach of layer \<open>128\<close> returns the error
  with the loopback node \<open>naa.1990000000000128\<close> still there, although every removal
  succeeds: the target directory is removed and the service process gets its SIGINT,
  as the claim says, and nothing removes the loopback node.
\<close>

theorem doOverlayBD_lun_failure_leaves_loopback:
  "fst (doOverlayBD
     (quietEnv\<lparr>mkdirAll := (\<lambda>p. if p = ''/sys/kernel/config/target/loopback/naa.1990000000000128/tpgt_1/lun/lun_0''
                               then Some (Sys ENOSPC) else None),
               psFind := (\<lambda>sid. ''4242''), psCount := (\<lambda>sid i. ''0'')\<rparr>)
     ''/u/snapshots/128'' ''128'' machine0)
   = Failed (Wrap ''failed to create loopback lun dir /sys/kernel/config/target/loopback/naa.1990000000000128/tpgt_1/lun/lun_0''
       (Sys ENOSPC)) \<and>
   tree (snd (doOverlayBD
     (quietEnv\<lparr>mkdirAll := (\<lambda>p. if p = ''/sys/kernel/config/target/loopback/naa.1990000000000128/tpgt_1/lun/lun_0''
                               then Some (Sys ENOSPC) else None),
               psFind := (\<lambda>sid. ''4242''), psCount := (\<lambda>sid i. ''0'')\<rparr>)
     ''/u/snapshots/128'' ''128'' machine0))
     ''/sys/kernel/config/target/loopback/naa.1990000000000128'' = Some Directory \<and>
   tree (snd (doOverlayBD
     (quietEnv\<lparr>mkdirAll := (\<lambda>p. if p = ''/sys/kernel/config/target/loopback/naa.1990000000000128/tpgt_1/lun/lun_0''
                               then Some (Sys ENOSPC) else None),
               psFind := (\<lambda>sid. ''4242''), psCount := (\<lambda>sid i. ''0'')\<rparr>)
     ''/u/snapshots/128'' ''128'' machine0))
     ''/sys/kernel/config/target/core/user_999999999/dev_128'' = None \<and>
   signals (snd (doOverlayBD
     (quietEnv\<lparr>mkdirAll := (\<lambda>p. if p = ''/sys/kernel/config/target/loopback/naa.1990000000000128/tpgt_1/lun/lun_0''
                               then Some (Sys ENOSPC) else None),
               psFind := (\<lambda>sid. ''4242''), psCount := (\<lambda>sid i. ''0'')\<rparr>)
     ''/u/snapshots/128'' ''128'' machine0)) = [(''128'', 2)]"
proof -
  let ?env = "quietEnv\<lparr>mkdirAll := (\<lambda>p. if p = ''/sys/kernel/config/target/loopback/naa.1990000000000128/tpgt_1/lun/lun_0''
                               then Some (Sys ENOSPC) else None),
               psFind := (\<lambda>sid. ''4242''), psCount := (\<lambda>sid i. ''0'')\<rparr>"
  let ?tp = "''/sys/kernel/config/target/core/user_999999999/dev_128''"
  let ?lp = "''/sys/kernel/config/target/loopback/naa.1990000000000128''"
  have env: "mkdirAll ?env = (\<lambda>p. if p = ''/sys/kernel/config/target/loopback/naa.1990000000000128/tpgt_1/lun/lun_0''
                               then Some (Sys ENOSPC) else None)"
    "writeFile ?env = (\<lambda>p b. None)" "removeAll ?env = (\<lambda>p. None)"
    "writeEnable ?env = (\<lambda>i. None)" "readLog ?env = (\<lambda>i. Inr ''success'')"
    "psFind ?env = (\<lambda>sid. ''4242'')" "psCount ?env = (\<lambda>sid i. ''0'')"
    by (simp_all add: quietEnv_def)
  have kill: "\<And>m. killProcess ?env ''128'' SIGINT m = (None, m\<lparr>signals := signals m @ [(''128'', 2)]\<rparr>)"
    by (simp add: killProcess_def env Trim_def SIGINT_def SIGUSR2_def Let_def killWait_now
        AtoiOk_def Atoi_def isDigit_def decimal_def digitVal_def)
  define m1 where "m1 = snd (MkdirAll ?env ?tp machine0)"
  define m2 where "m2 = snd (WriteFile ?env ''/sys/kernel/config/target/core/user_999999999/dev_128/control''
     ''dev_config=overlaybd//u/snapshots/128/config.v1.json;128'' m1)"
  define m3 where "m3 = snd (WriteFile ?env ''/sys/kernel/config/target/core/user_999999999/dev_128/control''
     ''max_data_area_mb=4'' m2)"
  define m4 where "m4 = snd (RemoveAll ?env ''/u/snapshots/128/init-debug.log'' m3)"
  define m5 where "m5 = m4\<lparr>tree := (tree m4)(''/sys/kernel/config/target/core/user_999999999/dev_128/enable''
     \<mapsto> Regular (Bytes ''1''))\<rparr>"
  define m6 where "m6 = snd (WriteFile ?env
     ''/sys/kernel/config/target/core/user_999999999/dev_128/attrib/cmd_time_out'' ''2147483'' m5)"
  define m7 where "m7 = snd (MkdirAll ?env ?lp m6)"
  define m8 where "m8 = deferTarget ?env ?tp (deferKill ?env ''128'' m7)"
  let ?err = "Failed (Wrap ''failed to create loopback lun dir /sys/kernel/config/target/loopback/naa.1990000000000128/tpgt_1/lun/lun_0''
         (Sys ENOSPC))"
  have ae: "afterEnable ?env ''/u/snapshots/128'' ''128'' None m5 = (?err, m7)"
    by (simp add: afterEnable_def tp128 id128 lun128 paths128 showNat_2147483 Let_def env
        readyLoop_now split_beta m6_def m7_def)
  have at: "afterTarget ?env ''/u/snapshots/128'' ''128'' m1 = (?err, deferKill ?env ''128'' m7)"
    by (simp add: afterTarget_def tp128 paths128 Let_def env ae enableLoop_now obdMaxDataAreaMB_def
        showNat_4 split_beta OverlaybdConfPath_def OverlaybdInitDebuglogPath_def configFile_def
        m2_def [symmetric] m3_def [symmetric] m4_def [symmetric] m5_def [symmetric])
  have d: "doOverlayBD ?env ''/u/snapshots/128'' ''128'' machine0 = (?err, m8)"
    by (simp add: doOverlayBD_def tp128 Let_def env split_beta m1_def [symmetric] at m8_def)
  have t1: "tree m1 ?lp = None" "signals m1 = []"
    by (simp_all add: m1_def MkdirAll_def env machine0_def under_def HasPrefix_def)
  have t6: "tree m6 ?lp = None" "signals m6 = []"
    using t1
    by (simp_all add: m6_def m5_def m4_def m3_def m2_def WriteFile_def RemoveAll_def env
        under_def HasPrefix_def)
  have t7: "tree m7 ?lp = Some Directory" "signals m7 = []"
    using t6 by (simp_all add: m7_def MkdirAll_def env under_def)
  have t8: "tree m8 ?lp = Some Directory" "tree m8 ?tp = None" "signals m8 = [(''128'', 2)]"
    using t7
    by (simp_all add: m8_def deferTarget_def deferKill_def kill RemoveAll_def env under_def
        HasPrefix_def)
  from d t8 show ?thesis by simp
qed

section \<open>The quota provider: the backing file\<close>

lemma files_formatImageFile [simp]: "files (snd (formatImageFile q env img m)) = files m"
  by (simp add: formatImageFile_def Let_def split: option.splits)

lemma files_mountImage [simp]: "files (snd (mountImage env img target rw m)) = files m"
  by (simp add: mountImage_def Let_def split: option.splits)

lemma createImageFile_ok:
  assumes "tempFile env (Dir img) ''new-'' = Inr tmp" and "tmp \<noteq> img"
    and "truncateFile env tmp sz = None" and "renameFile env tmp img = None"
  shows "fst (createImageFile env img sz m) = None"
    and "files (snd (createImageFile env img sz m)) = (files m)(tmp := None, img \<mapsto> sz)"
  using assms by (auto simp: createImageFile_def Let_def)

lemma createImageFile_failed:
  assumes "tempFile env (Dir img) ''new-'' = Inr tmp"
    and "truncateFile env tmp sz \<noteq> None \<or> renameFile env tmp img \<noteq> None"
  shows "fst (createImageFile env img sz m) \<noteq> None"
    and "removeFile env tmp = None \<Longrightarrow>
         files (snd (createImageFile env img sz m)) = (files m)(tmp := None)"
  using assms by (auto simp: createImageFile_def Let_def split: option.splits)


lemma Setup_creating:
  assumes "index opts ''base'' \<noteq> []"
    and "findMount env target \<noteq> Inr target"
    and "lstat env (Join [index opts ''base'', sparseFileName]) = Some e"
  shows "Setup q env target sz opts m =
     (case createImageFile env (Join [index opts ''base'', sparseFileName])
             (if sz \<le> 0 then defaultQuota q else sz) m of
        (Some err, m1) \<Rightarrow>
          (Some (Wrap (''failed to create image file: '' @
             Join [index opts ''base'', sparseFileName]) err), m1)
      | (None, m1) \<Rightarrow>
          (case formatImageFile q env (Join [index opts ''base'', sparseFileName]) m1 of
             (Some err, m2) \<Rightarrow>
               (Some (Wrap (''failed to format image file: '' @
                  Join [index opts ''base'', sparseFileName]) err), m2)
           | (None, m2) \<Rightarrow>
               (case mountImage env (Join [index opts ''base'', sparseFileName]) target
                       (if index opts ''rwFlag'' = [] then ''rw'' else index opts ''rwFlag'') m2 of
                  (Some err, m4) \<Rightarrow>
                    (Some (Wrap (''failed to mount image file: '' @
                       Join [index opts ''base'', sparseFileName] @ '' to '' @ target) err), m4)
                | (None, m4) \<Rightarrow> (None, m4))))"
proof -
  obtain r1 m1 where c: "createImageFile env (Join [index opts ''base'', sparseFileName])
             (if sz \<le> 0 then defaultQuota q else sz) m = (r1, m1)"
    by (cases "createImageFile env (Join [index opts ''base'', sparseFileName])
             (if sz \<le> 0 then defaultQuota q else sz) m") auto
  obtain r2 m2 where f: "formatImageFile q env (Join [index opts ''base'', sparseFileName]) m1
      = (r2, m2)"
    by (cases "formatImageFile q env (Join [index opts ''base'', sparseFileName]) m1") auto
  show ?thesis
    using assms c f
    by (cases r1; cases r2) (simp_all add: Setup_def Let_def)
qed

lemma Setup_files:
  assumes "index opts ''base'' \<noteq> []"
    and "findMount env target \<noteq> Inr target"
    and "lstat env (Join [index opts ''base'', sparseFileName]) = Some e"
  shows "files (snd (Setup q env target sz opts m)) =
     files (snd (createImageFile env (Join [index opts ''base'', sparseFileName])
             (if sz \<le> 0 then defaultQuota q else sz) m))"
    and "fst (createImageFile env (Join [index opts ''base'', sparseFileName])
             (if sz \<le> 0 then defaultQuota q else sz) m) \<noteq> None \<Longrightarrow>
         fst (Setup q env target sz opts m) \<noteq> None"
proof -
  let ?c = "createImageFile env (Join [index opts ''base'', sparseFileName])
             (if sz \<le> 0 then defaultQuota q else sz) m"
  obtain r1 m1 where c: "?c = (r1, m1)" by (cases ?c) auto
  obtain r2 m2 where f: "formatImageFile q env (Join [index opts ''base'', sparseFileName]) m1
      = (r2, m2)"
    by (cases "formatImageFile q env (Join [index opts ''base'', sparseFileName]) m1") auto
  from f have f': "files m2 = files m1"
    using files_formatImageFile [of q env "Join [index opts ''base'', sparseFileName]" m1]
    by simp
  obtain r3 m3 where mt: "mountImage env (Join [index opts ''base'', sparseFileName]) target
      (if index opts ''rwFlag'' = [] then ''rw'' else index opts ''rwFlag'') m2 = (r3, m3)"
    by (cases "mountImage env (Join [index opts ''base'', sparseFileName]) target
      (if index opts ''rwFlag'' = [] then ''rw'' else index opts ''rwFlag'') m2") auto
  from mt have m': "files m3 = files m2"
    using files_mountImage [of env "Join [index opts ''base'', sparseFileName]" target
        "if index opts ''rwFlag'' = [] then ''rw'' else index opts ''rwFlag''" m2]
    by simp
  show "files (snd (Setup q env target sz opts m)) = files (snd ?c)"
    unfolding Setup_creating [OF assms] c
    using f f' mt m' by (cases r1; cases r2; cases r3) simp_all
  show "fst ?c \<noteq> None \<Longrightarrow> fst (Setup q env target sz opts m) \<noteq> None"
    unfolding Setup_creating [OF assms] c
    by (cases r1) simp_all
qed

text \<open>
  C6 (amended). For a \<open>Setup(target, size, opts)\<close> with a non-empty \<open>opts["base"]\<close>, a
  target that is not a mountpoint and no backing file yet: the temporary file is made
  in the directory of \<open>base/rw.img\<close>; when its truncation and its renaming succeed,
  \<open>base/rw.img\<close> is a file of exactly \<open>size\<close> bytes when \<open>size\<close> is positive, and of the
  default quota of the provider otherwise, and the temporary file is gone; when one of
  the two fails, \<open>Setup\<close> fails, \<open>rw.img\<close> is not made, and the temporary file is
  removed (when its removal succeeds).
\<close>

theorem Setup_backing_file:
  assumes "index opts ''base'' \<noteq> []"
    and "findMount env target \<noteq> Inr target"
    and "lstat env (Join [index opts ''base'', sparseFileName]) = Some e"
    and "tempFile env (Dir (Join [index opts ''base'', sparseFileName])) ''new-'' = Inr tmp"
    and "tmp \<noteq> Join [index opts ''base'', sparseFileName]"
  shows "(truncateFile env tmp (if sz \<le> 0 then defaultQuota q else sz) = None \<and>
          renameFile env tmp (Join [index opts ''base'', sparseFileName]) = None \<longrightarrow>
            files (snd (Setup q env target sz opts m)) =
              (files m)(tmp := None,
                Join [index opts ''base'', sparseFileName] \<mapsto>
                  (if sz \<le> 0 then defaultQuota q else sz))) \<and>
         (truncateFile env tmp (if sz \<le> 0 then defaultQuota q else sz) \<noteq> None \<or>
          renameFile env tmp (Join [index opts ''base'', sparseFileName]) \<noteq> None \<longrightarrow>
            fst (Setup q env target sz opts m) \<noteq> None \<and>
            files (snd (Setup q env target sz opts m)) (Join [index opts ''base'', sparseFileName]) =
              files m (Join [index opts ''base'', sparseFileName]) \<and>
            (removeFile env tmp = None \<longrightarrow>
               files (snd (Setup q env target sz opts m)) = (files m)(tmp := None)))"
proof (intro conjI impI)
  let ?img = "Join [index opts ''base'', sparseFileName]"
  let ?sz = "if sz \<le> 0 then defaultQuota q else sz"
  assume ok: "truncateFile env tmp ?sz = None \<and> renameFile env tmp ?img = None"
  have "files (snd (createImageFile env ?img ?sz m)) = (files m)(tmp := None, ?img \<mapsto> ?sz)"
    by (rule createImageFile_ok(2) [OF assms(4) assms(5) ok [THEN conjunct1] ok [THEN conjunct2]])
  with Setup_files(1) [OF assms(1-3), of q sz m]
  show "files (snd (Setup q env target sz opts m)) = (files m)(tmp := None, ?img \<mapsto> ?sz)"
    by (simp only:)
next
  let ?img = "Join [index opts ''base'', sparseFileName]"
  let ?sz = "if sz \<le> 0 then defaultQuota q else sz"
  assume bad: "truncateFile env tmp ?sz \<noteq> None \<or> renameFile env tmp ?img \<noteq> None"
  from createImageFile_failed(1) [OF assms(4) bad, of m]
  have c: "fst (createImageFile env ?img ?sz m) \<noteq> None" .
  from Setup_files(2) [OF assms(1-3) c]
  show "fst (Setup q env target sz opts m) \<noteq> None" .
  have "files (snd (createImageFile env ?img ?sz m)) ?img = files m ?img"
    using assms(4,5) bad
    by (auto simp add: createImageFile_def Let_def split: option.splits)
  with Setup_files(1) [OF assms(1-3), of q sz m]
  show "files (snd (Setup q env target sz opts m)) ?img = files m ?img"
    by (simp only:)
  { assume "removeFile env tmp = None"
    from createImageFile_failed(2) [OF assms(4) bad this, of m]
      Setup_files(1) [OF assms(1-3), of q sz m]
    show "files (snd (Setup q env target sz opts m)) = (files m)(tmp := None)"
      by (simp only:) }
qed


lemma quota_paths:
  "Join [''/u/snapshots/5/upper'', sparseFileName] = ''/u/snapshots/5/upper/rw.img''"
  "Dir ''/u/snapshots/5/upper/rw.img'' = ''/u/snapshots/5/upper''"
  "Join [''/u/snapshots/5/upper'', ''new-1''] = ''/u/snapshots/5/upper/new-1''"
  "Base ''/u/snapshots/5/upper'' = ''upper''"
  "Join [''upper'', sparseFileName] = ''upper/rw.img''"
  "Dir ''upper/rw.img'' = ''upper''"
  "Join [''upper'', ''new-1''] = ''upper/new-1''"
  by (simp_all add: Join_def Dir_def Base_def Clean_def IsAbs_def stripTrailingSep_def
      sparseFileName_def)

lemma New_empty: "New Map.empty = \<lparr>fsType = ''ext4'', defaultQuota = 10737418240\<rparr>"
  by (simp add: New_def index_def AtoiOk_def defaultFsType_def defaultSparsefileQuota_def)

theorem Setup_backing_file_witness:
  "files (snd (Setup (New Map.empty) quotaEnv ''/u/snapshots/5/upper'' 2147483648
      [''base'' \<mapsto> ''/u/snapshots/5/upper'', ''rwFlag'' \<mapsto> ''rw''] quotaMachine0))
     = [''/u/snapshots/5/upper/rw.img'' \<mapsto> 2147483648] \<and>
   fst (Setup (New Map.empty) (quotaEnv\<lparr>renameFile := (\<lambda>p q. Some (Sys EIO))\<rparr>)
      ''/u/snapshots/5/upper'' 2147483648
      [''base'' \<mapsto> ''/u/snapshots/5/upper'', ''rwFlag'' \<mapsto> ''rw''] quotaMachine0) \<noteq> None \<and>
   files (snd (Setup (New Map.empty) (quotaEnv\<lparr>renameFile := (\<lambda>p q. Some (Sys EIO))\<rparr>)
      ''/u/snapshots/5/upper'' 2147483648
      [''base'' \<mapsto> ''/u/snapshots/5/upper'', ''rwFlag'' \<mapsto> ''rw''] quotaMachine0))
     = Map.empty"
proof -
  let ?opts = "[''base'' \<mapsto> ''/u/snapshots/5/upper'', ''rwFlag'' \<mapsto> ''rw'']"
  let ?bad = "quotaEnv\<lparr>renameFile := (\<lambda>p q. Some (Sys EIO))\<rparr>"
  have b: "index ?opts ''base'' = ''/u/snapshots/5/upper''"
    by (simp add: index_def)
  have a: "files (snd (Setup (New Map.empty) quotaEnv ''/u/snapshots/5/upper'' 2147483648
      ?opts quotaMachine0)) = [''/u/snapshots/5/upper/rw.img'' \<mapsto> 2147483648]"
    using Setup_backing_file [of ?opts quotaEnv "''/u/snapshots/5/upper''" "Sys ENOENT"
        "''/u/snapshots/5/upper/new-1''" 2147483648 "New Map.empty" quotaMachine0]
    by (simp add: b quota_paths quotaEnv_def quotaMachine0_def)
  have c: "fst (Setup (New Map.empty) ?bad ''/u/snapshots/5/upper'' 2147483648
      ?opts quotaMachine0) \<noteq> None \<and>
    files (snd (Setup (New Map.empty) ?bad ''/u/snapshots/5/upper'' 2147483648
      ?opts quotaMachine0)) = Map.empty"
    using Setup_backing_file [of ?opts ?bad "''/u/snapshots/5/upper''" "Sys ENOENT"
        "''/u/snapshots/5/upper/new-1''" 2147483648 "New Map.empty" quotaMachine0]
    by (simp add: b quota_paths quotaEnv_def quotaMachine0_def)
  from a c show ?thesis by simp
qed

text \<open>
  C6, as stated, fails. With no \<open>base\<close> option and the size \<open>0\<close>, the backing file of the
  target \<open>/u/snapshots/5/upper\<close> is made in \<open>filepath.Base(target)\<close>, the relative
  directory \<open>upper\<close>, not in the directory of the target, and it has the default quota
  of the provider, 10 GiB, not \<open>0\<close> bytes.
\<close>

theorem Setup_backing_file_counterexample:
  "files (snd (Setup (New Map.empty) quotaEnv ''/u/snapshots/5/upper'' 0 Map.empty quotaMachine0))
     = [''upper/rw.img'' \<mapsto> 10737418240] \<and>
   files (snd (Setup (New Map.empty) quotaEnv ''/u/snapshots/5/upper'' 0 Map.empty quotaMachine0))
     ''/u/snapshots/5/rw.img'' = None"
proof -
  have "files (snd (Setup (New Map.empty) quotaEnv ''/u/snapshots/5/upper'' 0 Map.empty
      quotaMachine0)) = [''upper/rw.img'' \<mapsto> 10737418240]"
    by (simp add: Setup_def New_empty index_def quota_paths quotaEnv_def quotaMachine0_def
        createImageFile_def formatImageFile_def mountImage_def Let_def)
  then show ?thesis by simp
qed

section \<open>The quota label\<close>

lemma getActiveQuota_Panic_iff:
  "(\<exists>msg. getActiveQuota parse info = Panic msg) \<longleftrightarrow>
   (\<exists>quota. lookupLabel (Labels info) SnapshotterLabelOverlayActiveQuota = Some quota \<and>
      parse quota = None)"
  by (auto simp: getActiveQuota_def lookupLabel_def split: option.splits)

lemma getActiveQuota_Err_iff:
  "(\<exists>e. getActiveQuota parse info = Err e) \<longleftrightarrow>
   (lookupLabel (Labels info) SnapshotterLabelOverlayActiveQuota = None \<or>
    (\<exists>quota s. lookupLabel (Labels info) SnapshotterLabelOverlayActiveQuota = Some quota \<and>
       parse quota = Some s \<and> (s < MinActiveQuota \<or> MaxActiveQuota < s)))"
  by (auto simp: getActiveQuota_def lookupLabel_def split: option.splits)

lemma getActiveQuota_Ok_iff:
  "getActiveQuota parse info = Ok s \<longleftrightarrow>
   (\<exists>quota. lookupLabel (Labels info) SnapshotterLabelOverlayActiveQuota = Some quota \<and>
      parse quota = Some s \<and> MinActiveQuota \<le> s \<and> s \<le> MaxActiveQuota)"
  by (auto simp: getActiveQuota_def lookupLabel_def split: option.splits)

lemma fst_onMach [simp]: "fst (onMach f w) = fst (f (mach w))"
  by (simp add: onMach_def split_beta)

lemma quotaSetups_onMach [simp]: "quotaSetups (snd (onMach f w)) = quotaSetups w"
  by (simp add: onMach_def split_beta)

lemma prepareUpperDir_Panic:
  assumes "mkdirAll (drv env) target = None" and "mkdirAll (drv env) fsDir = None"
    and "mkdirAll (drv env) workDir = None"
    and "getActiveQuota (parseQuantity env) base = Panic msg"
  shows "fst (prepareUpperDir sn env target fsDir workDir base w) = Panic msg"
  using assms by (simp add: prepareUpperDir_def split_beta)

lemma prepareUpperDir_no_setup:
  assumes "getActiveQuota (parseQuantity env) base = Err e"
  shows "quotaSetups (snd (prepareUpperDir sn env target fsDir workDir base w)) = quotaSetups w"
  using assms
  by (simp add: prepareUpperDir_def split_beta Let_def split: option.splits)

lemma prepareUpperDir_never_invalid:
  assumes "getActiveQuota (parseQuantity env) base = Panic msg"
  shows "fst (prepareUpperDir sn env target fsDir workDir base w) \<noteq> Ok ()"
    and "quotaSetups (snd (prepareUpperDir sn env target fsDir workDir base w)) = quotaSetups w"
  using assms
  by (simp_all add: prepareUpperDir_def split_beta Let_def split: option.splits)

section \<open>Active and Mounts: properties\<close>

lemma db_logTx [simp]: "db (logTx ev w) = db w"
  by (simp add: logTx_def)

lemma db_Rollback [simp]: "db (Rollback w) = db w"
  by (simp add: Rollback_def)

lemma prepareLower_Ok:
  assumes "prepareLower sn env kind key parent isActive base tx w = (Ok (s, pp, lm), tx1, w1)"
  shows "CreateSnapshot tx kind key parent base = Inr (s, tx1)"
  using assms
  by (auto simp: prepareLower_def Let_def
      split: sum.splits prod.splits option.splits result.splits if_splits)

lemma CreateSnapshot_row:
  assumes "CreateSnapshot tx kind key parent base = Inr (s, tx1)"
  shows "\<exists>r. rows tx1 key = Some r \<and> rowID r = ID s \<and> Labels (rowInfo r) = Labels base"
  using assms
  by (auto simp: CreateSnapshot_def Let_def split: sum.splits option.splits if_splits)

lemma Active_Ok:
  assumes "Active sn env key parent base w = (Ok mounts, w')"
  shows "\<exists>b s pp lm tx1 w1.
    base = Inr b \<and>
    prepareLower sn env KindActive key parent True b (db w) (logTx (TxBegin True) w) =
      (Ok (s, pp, lm), tx1, w1) \<and>
    db w' = tx1 \<and>
    mounts =
      [\<lparr>Type = ''overlay'', Source = ''overlay'',
        Options =
          [''lowerdir='' @ lowerPath sn (Some b) (ID s) key,
           ''upperdir='' @ Join [upperPath sn (Some b) (ID s) key, ''fs''],
           ''workdir='' @ Join [upperPath sn (Some b) (ID s) key, ''work'']] @
          (if indexOff sn then [''index=off''] else []) @
          (if userxattr sn then [''userxattr''] else [])\<rparr>]"
  using assms
  by (auto simp: Active_def Let_def
      split: sum.splits prod.splits option.splits result.splits if_splits)

lemma getActivePath_same_labels:
  "key \<noteq> [] \<Longrightarrow> Labels i' = Labels i \<Longrightarrow> getActivePath i' key = getActivePath i key"
  by (simp add: getActivePath_def split: option.splits)

lemma paths_same_labels:
  assumes "key \<noteq> []" and "Labels i' = Labels i"
  shows "upperPath sn (Some i') sid key = upperPath sn (Some i) sid key"
    and "lowerPath sn (Some i') sid key = lowerPath sn (Some i) sid key"
    and "fsPath sn (Some i') sid key = fsPath sn (Some i) sid key"
  using assms(2) getActivePath_same_labels [OF assms]
  by (auto simp: upperPath_def lowerPath_def fsPath_def)

text \<open>
  C9. After a successful \<open>Active\<close> on a (non-empty) key, a \<open>Mounts\<close> on the same key, when
  it gets its transaction and the upper directory of the layer exists, returns the
  mounts \<open>Active\<close> returned: one mount of type \<open>overlay\<close> and source \<open>overlay\<close> with the
  options \<open>lowerdir\<close>, \<open>upperdir\<close> (the \<open>fs\<close> of the upper directory) and \<open>workdir\<close> (its
  \<open>work\<close>), followed by \<open>index=off\<close> when the kernel supports it and by \<open>userxattr\<close> when
  it is needed, in this order.
\<close>

theorem Mounts_after_Active:
  assumes "Active sn env key parent base w = (Ok mounts, w')"
    and "key \<noteq> []"
    and "transactionContext env False = None"
    and "\<forall>r. rows (db w') key = Some r \<longrightarrow>
           stat (drv env) (upperPath sn (Some (rowInfo r)) (rowID r) key) = None"
  shows "fst (Mounts sn env key w') = Ok mounts \<and>
    (\<exists>lower upper. mounts =
      [\<lparr>Type = ''overlay'', Source = ''overlay'',
        Options =
          [''lowerdir='' @ lower, ''upperdir='' @ Join [upper, ''fs''],
           ''workdir='' @ Join [upper, ''work'']] @
          (if indexOff sn then [''index=off''] else []) @
          (if userxattr sn then [''userxattr''] else [])\<rparr>])"
proof -
  from Active_Ok [OF assms(1)] obtain b s pp lm tx1 w1 where
    b: "base = Inr b"
    and pl: "prepareLower sn env KindActive key parent True b (db w) (logTx (TxBegin True) w) =
      (Ok (s, pp, lm), tx1, w1)"
    and db: "db w' = tx1"
    and m: "mounts =
      [\<lparr>Type = ''overlay'', Source = ''overlay'',
        Options =
          [''lowerdir='' @ lowerPath sn (Some b) (ID s) key,
           ''upperdir='' @ Join [upperPath sn (Some b) (ID s) key, ''fs''],
           ''workdir='' @ Join [upperPath sn (Some b) (ID s) key, ''work'']] @
          (if indexOff sn then [''index=off''] else []) @
          (if userxattr sn then [''userxattr''] else [])\<rparr>]"
    by blast
  from CreateSnapshot_row [OF prepareLower_Ok [OF pl]] obtain r where
    r: "rows tx1 key = Some r" "rowID r = ID s" "Labels (rowInfo r) = Labels b"
    by blast
  note p = paths_same_labels [OF assms(2) r(3), of sn "ID s"]
  from assms(4) db r have st: "stat (drv env) (upperPath sn (Some b) (ID s) key) = None"
    by (simp add: p)
  have "fst (Mounts sn env key w') = Ok mounts"
    using assms(3) db r st
    by (simp add: Mounts_def GetInfo_def GetSnapshot_def Let_def p m)
  with m show ?thesis by blast
qed

section \<open>The quiet machine: evaluation\<close>

lemma quietEnv_simps [simp]:
  "mkdirAll quietEnv = (\<lambda>p. None)" "removeAll quietEnv = (\<lambda>p. None)"
  "writeFile quietEnv = (\<lambda>p b. None)" "writeEnable quietEnv = (\<lambda>i. None)"
  "readLog quietEnv = (\<lambda>i. Inr ''success'')" "readFile quietEnv = (\<lambda>p. Inr ''7'')"
  "readDir quietEnv = (\<lambda>p i. Inr [''sdb''])" "symlink quietEnv = (\<lambda>p q. None)"
  "stat quietEnv = (\<lambda>p. None)" "exec quietEnv = (\<lambda>c args. None)"
  "psFind quietEnv = (\<lambda>sid. [])" "psCount quietEnv = (\<lambda>sid i. ''0'')"
  "atomicWriteFile (cfg quietEnv) = (\<lambda>p. None)"
  by (simp_all add: quietEnv_def)

lemma probeLoop_now:
  "readDir env (scsiBlockDevicePath dn) retry = Inr (d # ds) \<Longrightarrow> 0 < n \<Longrightarrow>
   probeLoop env dn n retry err m = (Inr (''/dev/'' @ d), m)"
  by (cases n) auto

lemma afterLink_quiet: "fst (afterLink quietEnv snID tpgtPath m) = Device ''/dev/sdb''"
  by (simp add: afterLink_def Let_def probeLoop_now maxAttachAttempts_def)

lemma afterLun_quiet:
  "fst (afterLun quietEnv snID targetPath loopDevID tpgtPath lunPath m) = Device ''/dev/sdb''"
  by (simp add: afterLun_def Let_def split_beta afterLink_quiet)

lemma afterEnable_quiet:
  "length snID \<le> 13 \<Longrightarrow> fst (afterEnable quietEnv snDir snID None m) = Device ''/dev/sdb''"
  by (simp add: afterEnable_def Let_def split_beta readyLoop_now afterLun_quiet
      overlaybdLoopbackDeviceID_def)

lemma afterTarget_quiet:
  "length snID \<le> 13 \<Longrightarrow> fst (afterTarget quietEnv snDir snID m) = Device ''/dev/sdb''"
  by (simp add: afterTarget_def Let_def split_beta enableLoop_now afterEnable_quiet)

lemma doOverlayBD_quiet:
  "length snID \<le> 13 \<Longrightarrow> fst (doOverlayBD quietEnv snDir snID m) = Device ''/dev/sdb''"
  by (simp add: doOverlayBD_def Let_def split_beta afterTarget_quiet)

lemma ActiveMount_quiet:
  assumes "length sid \<le> 13"
    and "tree m (Join [parentDir, configFile]) = Some (Regular (Descriptor c))"
  shows "fst (ActiveMount quietEnv snDir sid parentDir dirs m) =
    Ok [\<lparr>Type = ''ext4'', Source = ''/dev/sdb'', Options = [''ro'']\<rparr>]"
proof -
  have loop: "convertedLoop quietEnv dirs = (True, map (\<lambda>p. Join [p, tmpTarIndex]) dirs)"
    by (rule convertedLoop_all) simp
  show ?thesis
    using assms
    by (simp add: ActiveMount_def loop Exec_def overlaybdCreate_def Let_def split_beta
        ConstructOverlayBDWritableSpec_def ReadConfig_def WriteConfig_def doOverlayBD_quiet)
qed

lemma demoEnv_simps [simp]:
  "drv demoEnv = quietEnv" "transactionContext demoEnv = (\<lambda>writable. None)"
  "txCommit demoEnv = None" "mkdirTemp demoEnv = (\<lambda>dir. Inr (Join [dir, ''new-1'']))"
  "renamePath demoEnv = (\<lambda>p q. None)" "mountAll demoEnv = (\<lambda>ms p. None)"
  "unmountPath demoEnv = (\<lambda>p. None)" "parseQuantity demoEnv = demoParse"
  "quotaRemove demoEnv = (\<lambda>p. None)" "removeActivePath demoEnv = (\<lambda>i k. None)"
  by (simp_all add: demoEnv_def)

lemma demoInfo_simps [simp]:
  "Labels (demoInfo ls) = Some ls" "Created (demoInfo ls) = []"
  by (simp_all add: demoInfo_def)

lemma demoSnapshotter_simps [simp]:
  "root demoSnapshotter = ''/r''" "defaultUpperDir demoSnapshotter = ''/u''"
  "indexOff demoSnapshotter = True" "userxattr demoSnapshotter = False"
  "hasQuotaDriver demoSnapshotter = True" "asyncRemove demoSnapshotter = True"
  by (simp_all add: demoSnapshotter_def)

lemma demo_paths:
  "Join [''/u'', ''snapshots''] = ''/u/snapshots''"
  "Join [''/r'', ''snapshots''] = ''/r/snapshots''"
  "Join [''/u/snapshots'', ''new-1''] = ''/u/snapshots/new-1''"
  "Join [''/r/snapshots'', ''new-1''] = ''/r/snapshots/new-1''"
  "Join [''/u'', ''snapshots'', ''2''] = ''/u/snapshots/2''"
  "Join [''/r'', ''snapshots'', ''2''] = ''/r/snapshots/2''"
  "Join [''/r'', ''snapshots'', ''1''] = ''/r/snapshots/1''"
  "Join [''/u'', ''snapshots'', ''2'', ''upper''] = ''/u/snapshots/2/upper''"
  "Join [''/u'', ''snapshots'', ''2'', ''lower''] = ''/u/snapshots/2/lower''"
  "Join [''/u/snapshots/2/upper'', ''fs''] = ''/u/snapshots/2/upper/fs''"
  "Join [''/u/snapshots/2/upper'', ''work''] = ''/u/snapshots/2/upper/work''"
  "Join [''/r/snapshots/1'', configFile] = ''/r/snapshots/1/config.v1.json''"
  "Join [''/r/snapshots/2'', configFile] = ''/r/snapshots/2/config.v1.json''"
  "Join [''/u/snapshots/2'', SandBoxMetaFile] = ''/u/snapshots/2/pod_sandbox_meta''"
  by (simp_all add: Join_def Clean_def IsAbs_def configFile_def SandBoxMetaFile_def)

lemma showNat_2: "showNat (Suc (Suc 0)) = ''2''"
  by (simp add: showNat.simps)

lemma demo_prepareLower_active:
  "fst (prepareLower demoSnapshotter demoEnv KindActive ''run'' ''base'' True
          (demoInfo ls) (db demoWorld) (logTx (TxBegin True) demoWorld)) =
   Ok (\<lparr>ID = ''2'', SnapshotKind = KindActive, ParentIDs = [''1'']\<rparr>,
       ''/r/snapshots/1'',
       [\<lparr>Type = ''ext4'', Source = ''/dev/sdb'', Options = [''ro'']\<rparr>])"
  if "ls activePath = None" and "ls ''rwlayer'' = Some ''true''"
    and "ls ''PodSandboxMetadata'' = None" for ls
proof -
  have gp: "getActivePath (demoInfo ls) ''run'' =
      Inl (Wrap ''active snapshot path is not specified'' ErrNotFound)"
    using that(1) by (simp add: getActivePath_def)
  have cs: "CreateSnapshot (db demoWorld) KindActive ''run'' ''base'' (demoInfo ls) =
    Inr (\<lparr>ID = ''2'', SnapshotKind = KindActive, ParentIDs = [''1'']\<rparr>,
         (db demoWorld)\<lparr>rows := (rows (db demoWorld))(''run'' \<mapsto>
            \<lparr>rowID = ''2'',
             rowInfo = (demoInfo ls)\<lparr>Kind := KindActive, Name := ''run'', Parent := ''base'',
                         Created := ''2024-01-01''\<rparr>,
             rowUsage = \<lparr>Inodes = 0, Size = 0\<rparr>, rowParents = [''1'']\<rparr>), seq := 2\<rparr>)"
    by (simp add: CreateSnapshot_def demoWorld_def demoInfo_def showNat_2 Let_def)
  have fp: "fsPath demoSnapshotter (Some (demoInfo ls)) ''2'' ''run'' = ''/u/snapshots/2''"
    using that(2) by (simp add: fsPath_def gp lookupLabel_def demo_paths)
  have pp: "fsPath demoSnapshotter
      (Some ((demoInfo Map.empty)\<lparr>Kind := KindCommitted, Name := ''base''\<rparr>)) ''1'' ''base'' =
      ''/r/snapshots/1''"
    by (simp add: fsPath_def getActivePath_def lookupLabel_def demo_paths)
  define w3 where "w3 = snd (MkdirTemp demoEnv ''/u/snapshots'' (logTx (TxBegin True) demoWorld))"
  define w4 where "w4 = snd (Rename demoEnv ''/u/snapshots/new-1'' ''/u/snapshots/2'' w3)"
  have t4: "tree (mach w4) ''/r/snapshots/1/config.v1.json'' =
      Some (Regular (Descriptor (Config0\<lparr>RepoBlobURL := ''https://registry.example.com/v2/app/blobs''\<rparr>)))"
    by (simp add: w4_def w3_def Rename_def MkdirTemp_def demo_paths logTx_def demoWorld_def
        machine0_def under_def HasPrefix_def)
  have am: "fst (ActiveMount quietEnv ''/u/snapshots/2'' ''2'' ''/r/snapshots/1''
      (idToDirectory demoSnapshotter [''1'']) (mach w4)) =
      Ok [\<lparr>Type = ''ext4'', Source = ''/dev/sdb'', Options = [''ro'']\<rparr>]"
    by (rule ActiveMount_quiet) (simp_all add: demo_paths t4)
  have m3: "MkdirTemp demoEnv ''/u/snapshots'' (logTx (TxBegin True) demoWorld) =
      (Inr ''/u/snapshots/new-1'', w3)"
    by (simp add: w3_def MkdirTemp_def demo_paths)
  have r4: "Rename demoEnv ''/u/snapshots/new-1'' ''/u/snapshots/2'' w3 = (None, w4)"
    by (simp add: w4_def Rename_def)
  have gi: "GetInfo ((db demoWorld)\<lparr>rows := (rows (db demoWorld))(''run'' \<mapsto>
            \<lparr>rowID = ''2'',
             rowInfo = (demoInfo ls)\<lparr>Kind := KindActive, Name := ''run'', Parent := ''base'',
                         Created := ''2024-01-01''\<rparr>,
             rowUsage = \<lparr>Inodes = 0, Size = 0\<rparr>, rowParents = [''1'']\<rparr>), seq := 2\<rparr>) ''base'' =
      Inr (''1'', (demoInfo Map.empty)\<lparr>Kind := KindCommitted, Name := ''base''\<rparr>,
           \<lparr>Inodes = 1, Size = 0\<rparr>)"
    by (simp add: GetInfo_def demoWorld_def)
  have am': "\<And>w. mach w = mach w4 \<Longrightarrow>
      fst (ActiveMount quietEnv ''/u/snapshots/2'' ''2'' ''/r/snapshots/1''
        (idToDirectory demoSnapshotter [''1'']) (mach w)) =
      Ok [\<lparr>Type = ''ext4'', Source = ''/dev/sdb'', Options = [''ro'']\<rparr>]"
    using am by simp
  show ?thesis
    using that(3)
    by (simp add: prepareLower_def gp demo_paths m3 cs fp Let_def gi pp r4 am split_beta
        onMach_def lookupLabel_def)
qed

lemma prepareUpperDir_quiet:
  assumes "drv env = quietEnv" and "\<forall>msg. getActiveQuota (parseQuantity env) base \<noteq> Panic msg"
  shows "fst (prepareUpperDir sn env target fsDir workDir base w) = Ok ()"
  using assms
  by (cases "getActiveQuota (parseQuantity env) base")
    (simp_all add: prepareUpperDir_def split_beta Let_def)

lemma demo_Active:
  assumes "ls activePath = None" and "ls ''rwlayer'' = Some ''true''"
    and "ls ''PodSandboxMetadata'' = None"
    and "\<forall>msg. getActiveQuota demoParse (demoInfo ls) \<noteq> Panic msg"
  shows "fst (Active demoSnapshotter demoEnv ''run'' ''base'' (Inr (demoInfo ls)) demoWorld) =
    Ok [\<lparr>Type = ''overlay'', Source = ''overlay'',
         Options = [''lowerdir=/u/snapshots/2/lower'', ''upperdir=/u/snapshots/2/upper/fs'',
                    ''workdir=/u/snapshots/2/upper/work'', ''index=off'']\<rparr>]"
proof -
  have gp: "getActivePath (demoInfo ls) ''run'' =
      Inl (Wrap ''active snapshot path is not specified'' ErrNotFound)"
    using assms(1) by (simp add: getActivePath_def)
  have up: "upperPath demoSnapshotter (Some (demoInfo ls)) ''2'' ''run'' = ''/u/snapshots/2/upper''"
    "lowerPath demoSnapshotter (Some (demoInfo ls)) ''2'' ''run'' = ''/u/snapshots/2/lower''"
    using assms(2) by (simp_all add: upperPath_def lowerPath_def gp lookupLabel_def demo_paths)
  note pl = demo_prepareLower_active [OF assms(1-3)]
  have pu: "\<And>w. fst (prepareUpperDir demoSnapshotter demoEnv ''/u/snapshots/2/upper''
      ''/u/snapshots/2/upper/fs'' ''/u/snapshots/2/upper/work'' (demoInfo ls) w) = Ok ()"
    by (rule prepareUpperDir_quiet) (simp_all add: assms(4))
  show ?thesis
    by (simp add: Active_def Let_def split_beta pl up demo_paths pu)
qed

theorem Mounts_after_Active_witness:
  "fst (Active demoSnapshotter demoEnv ''run'' ''base''
          (Inr (demoInfo [''rwlayer'' \<mapsto> ''true''])) demoWorld) =
     Ok [\<lparr>Type = ''overlay'', Source = ''overlay'',
          Options = [''lowerdir=/u/snapshots/2/lower'', ''upperdir=/u/snapshots/2/upper/fs'',
                     ''workdir=/u/snapshots/2/upper/work'', ''index=off'']\<rparr>] \<and>
   fst (Mounts demoSnapshotter demoEnv ''run''
          (snd (Active demoSnapshotter demoEnv ''run'' ''base''
                  (Inr (demoInfo [''rwlayer'' \<mapsto> ''true''])) demoWorld))) =
     Ok [\<lparr>Type = ''overlay'', Source = ''overlay'',
          Options = [''lowerdir=/u/snapshots/2/lower'', ''upperdir=/u/snapshots/2/upper/fs'',
                     ''workdir=/u/snapshots/2/upper/work'', ''index=off'']\<rparr>]"
proof -
  let ?b = "demoInfo [''rwlayer'' \<mapsto> ''true'']"
  let ?A = "Active demoSnapshotter demoEnv ''run'' ''base'' (Inr ?b) demoWorld"
  let ?M = "[\<lparr>Type = ''overlay'', Source = ''overlay'',
          Options = [''lowerdir=/u/snapshots/2/lower'', ''upperdir=/u/snapshots/2/upper/fs'',
                     ''workdir=/u/snapshots/2/upper/work'', ''index=off'']\<rparr>]"
  have q: "\<forall>msg. getActiveQuota demoParse ?b \<noteq> Panic msg"
    by (simp add: getActiveQuota_def activePath_def SnapshotterLabelOverlayActiveQuota_def)
  have a: "fst ?A = Ok ?M"
    by (rule demo_Active) (simp_all add: q activePath_def)
  then have eq: "?A = (Ok ?M, snd ?A)"
    by (simp add: prod_eq_iff)
  have "fst (Mounts demoSnapshotter demoEnv ''run'' (snd ?A)) = Ok ?M"
    using Mounts_after_Active [OF eq, THEN conjunct1] by simp
  with a show ?thesis by simp
qed

end
